theory Spec2Isabelle
  imports Main
begin

chapter \<open>Dashboard core: reducers, session, discovery cache and MQTT connection\<close>

text \<open>
  A shallow embedding of the browser dashboard's state layer: the three React reducers
  (MQTT, authentication, S3), the authentication service's session handling, the discovery
  service's cache, and the MQTT service's connection state machine. Instants and durations
  are integers in milliseconds, as \<^verbatim>\<open>Date.now()\<close> and \<^verbatim>\<open>Date.getTime()\<close> give them; the
  clock is an argument wherever the source reads it. A value that JavaScript treats as
  falsy and the source tests with \<^verbatim>\<open>!x\<close> or \<^verbatim>\<open>x || d\<close> is the empty string or \<open>None\<close>.
\<close>

section \<open>Shared types\<close>

text \<open>\<^verbatim>\<open>types/mqtt.ts\<close>: the connection status enumeration and a received message.\<close>

datatype ConnectionStatus = DISCONNECTED | CONNECTING | CONNECTED | RECONNECTING | ERROR

record MqttMessage =
  topic :: string
  payload :: string
  timestamp :: int
  qos :: nat

text \<open>
  A thrown JavaScript value: an \<^verbatim>\<open>Error\<close> instance with its \<^verbatim>\<open>name\<close>, \<^verbatim>\<open>message\<close> and
  (for transport errors) \<^verbatim>\<open>code\<close>, a missing property being the empty string; or a value
  that is not an \<^verbatim>\<open>Error\<close> instance.
\<close>

datatype thrown =
  JsError (err_name: string) (err_message: string) (err_code: string)
  | NonError

text \<open>How an awaited call on an external collaborator settles.\<close>

datatype outcome = Resolved | Rejected thrown

section \<open>MQTT context (reducer)\<close>

record MqttState =
  connected :: bool
  messages :: "MqttMessage list"
  error :: "string option"
  connectionStatus :: ConnectionStatus
  lastMessage :: "MqttMessage option"
  messageCount :: nat

datatype MqttAction =
  SET_CONNECTING
  | SET_CONNECTED
  | SET_DISCONNECTED
  | SET_RECONNECTING
  | SET_ERROR string
  | ADD_MESSAGE MqttMessage
  | CLEAR_MESSAGES
  | SET_STATUS ConnectionStatus
  | RESET_STATE

definition initialState_mqtt :: MqttState where
  "initialState_mqtt =
     \<lparr>connected = False, messages = [], MqttState.error = None,
      MqttState.connectionStatus = DISCONNECTED, lastMessage = None, messageCount = 0\<rparr>"

text \<open>
  \<^verbatim>\<open>[action.payload, ...state.messages].slice(0, 100)\<close> is \<open>take 100\<close> of the list with
  the new message in front. \<^verbatim>\<open>messageCount\<close> is a JavaScript number counting up from 0
  by 1; it is a natural number here.
\<close>

fun mqttReducer :: "MqttState \<Rightarrow> MqttAction \<Rightarrow> MqttState" where
  "mqttReducer state MqttAction.SET_CONNECTING =
     state\<lparr>connected := False, MqttState.connectionStatus := CONNECTING,
           MqttState.error := None\<rparr>"
| "mqttReducer state MqttAction.SET_CONNECTED =
     state\<lparr>connected := True, MqttState.connectionStatus := CONNECTED,
           MqttState.error := None\<rparr>"
| "mqttReducer state MqttAction.SET_DISCONNECTED =
     state\<lparr>connected := False, MqttState.connectionStatus := DISCONNECTED\<rparr>"
| "mqttReducer state MqttAction.SET_RECONNECTING =
     state\<lparr>connected := False, MqttState.connectionStatus := RECONNECTING,
           MqttState.error := None\<rparr>"
| "mqttReducer state (MqttAction.SET_ERROR p) =
     state\<lparr>connected := False, MqttState.connectionStatus := ERROR,
           MqttState.error := Some p\<rparr>"
| "mqttReducer state (MqttAction.ADD_MESSAGE p) =
     state\<lparr>messages := take 100 (p # messages state), lastMessage := Some p,
           messageCount := messageCount state + 1\<rparr>"
| "mqttReducer state MqttAction.CLEAR_MESSAGES =
     state\<lparr>messages := [], lastMessage := None, messageCount := 0\<rparr>"
| "mqttReducer state (MqttAction.SET_STATUS p) =
     state\<lparr>MqttState.connectionStatus := p, connected := (p = CONNECTED)\<rparr>"
| "mqttReducer state MqttAction.RESET_STATE = initialState_mqtt"

text \<open>\<^verbatim>\<open>MqttProvider.clearError\<close>: one dispatch, of \<^verbatim>\<open>SET_ERROR\<close> with the empty string.\<close>

definition clearError_mqtt :: "MqttState \<Rightarrow> MqttState" where
  "clearError_mqtt state = mqttReducer state (MqttAction.SET_ERROR '''')"

text \<open>The state the provider holds after a sequence of dispatches, from the initial state.\<close>

definition dispatched_mqtt :: "MqttAction list \<Rightarrow> MqttState" where
  "dispatched_mqtt acts = foldl mqttReducer initialState_mqtt acts"

text \<open>
  The reference for the bounded feed: the messages added since the last clear or reset, in
  the order of their insertion.
\<close>

fun inserted_step :: "MqttMessage list \<Rightarrow> MqttAction \<Rightarrow> MqttMessage list" where
  "inserted_step acc (MqttAction.ADD_MESSAGE p) = acc @ [p]"
| "inserted_step acc MqttAction.CLEAR_MESSAGES = []"
| "inserted_step acc MqttAction.RESET_STATE = []"
| "inserted_step acc _ = acc"

definition inserted :: "MqttAction list \<Rightarrow> MqttMessage list" where
  "inserted acts = foldl inserted_step [] acts"

section \<open>Authentication context (reducer and sign-in)\<close>

datatype AuthState = LOADING | AUTHENTICATED | UNAUTHENTICATED | CHALLENGE_REQUIRED

record CognitoUser =
  username :: string
  email :: "string option"
  attributes :: "(string \<times> string) list"

record AuthError =
  code :: string
  message :: string
  originalError :: "thrown option"

record AuthResult =
  user :: CognitoUser
  challengeName :: "string option"
  session :: "string option"
  accessToken :: "string option"
  idToken :: "string option"
  refreshToken :: "string option"

record AuthStateType =
  authState :: AuthState
  user :: "CognitoUser option"
  error :: "AuthError option"
  challengeSession :: "string option"

datatype AuthAction =
  SET_LOADING
  | SET_AUTHENTICATED CognitoUser
  | SET_UNAUTHENTICATED
  | SET_CHALLENGE_REQUIRED CognitoUser string
  | SET_ERROR AuthError
  | CLEAR_ERROR

definition initialState_auth :: AuthStateType where
  "initialState_auth =
     \<lparr>authState = LOADING, AuthStateType.user = None, AuthStateType.error = None,
      challengeSession = None\<rparr>"

fun authReducer :: "AuthStateType \<Rightarrow> AuthAction \<Rightarrow> AuthStateType" where
  "authReducer state AuthAction.SET_LOADING =
     state\<lparr>authState := LOADING, AuthStateType.error := None\<rparr>"
| "authReducer state (AuthAction.SET_AUTHENTICATED p) =
     state\<lparr>authState := AUTHENTICATED, AuthStateType.user := Some p,
           AuthStateType.error := None, challengeSession := None\<rparr>"
| "authReducer state AuthAction.SET_UNAUTHENTICATED =
     state\<lparr>authState := UNAUTHENTICATED, AuthStateType.user := None,
           AuthStateType.error := None, challengeSession := None\<rparr>"
| "authReducer state (AuthAction.SET_CHALLENGE_REQUIRED u sess) =
     state\<lparr>authState := CHALLENGE_REQUIRED, AuthStateType.user := Some u,
           challengeSession := Some sess, AuthStateType.error := None\<rparr>"
| "authReducer state (AuthAction.SET_ERROR p) =
     state\<lparr>AuthStateType.error := Some p,
           authState := (if authState state = LOADING then UNAUTHENTICATED
                         else authState state)\<rparr>"
| "authReducer state AuthAction.CLEAR_ERROR = state\<lparr>AuthStateType.error := None\<rparr>"

text \<open>
  \<^verbatim>\<open>AuthProvider.signIn\<close>. The two dispatches before \<^verbatim>\<open>await authService.signIn(...)\<close> are
  \<open>AuthProvider_signIn_begin\<close>; what follows the await is \<open>AuthProvider_signIn_settled\<close>,
  which takes how the service call ended: \<open>Inr\<close> its result, \<open>Inl\<close> what it threw.
\<close>

definition AuthProvider_signIn_begin :: "AuthStateType \<Rightarrow> AuthStateType" where
  "AuthProvider_signIn_begin state =
     authReducer (authReducer state AuthAction.SET_LOADING) AuthAction.CLEAR_ERROR"

definition AuthProvider_signIn_settled ::
  "thrown + AuthResult \<Rightarrow> AuthStateType \<Rightarrow> AuthStateType" where
  "AuthProvider_signIn_settled res state =
     (case res of
        Inr result \<Rightarrow>
          if challengeName result = Some ''NEW_PASSWORD_REQUIRED''
          then authReducer state
                 (AuthAction.SET_CHALLENGE_REQUIRED (AuthResult.user result)
                    (case session result of None \<Rightarrow> [] | Some x \<Rightarrow> x))
          else authReducer state (AuthAction.SET_AUTHENTICATED (AuthResult.user result))
      | Inl e \<Rightarrow>
          let authError =
                \<lparr>code = ''SIGN_IN_ERROR'',
                 message = (case e of JsError n m c \<Rightarrow> m | NonError \<Rightarrow> ''Sign-in failed''),
                 originalError = (case e of JsError n m c \<Rightarrow> Some e | NonError \<Rightarrow> None)\<rparr>
          in authReducer (authReducer state (AuthAction.SET_ERROR authError))
               AuthAction.SET_UNAUTHENTICATED)"

definition AuthProvider_signIn :: "thrown + AuthResult \<Rightarrow> AuthStateType \<Rightarrow> AuthStateType" where
  "AuthProvider_signIn res state =
     AuthProvider_signIn_settled res (AuthProvider_signIn_begin state)"

text \<open>
  \<^verbatim>\<open>AuthProvider.signOut\<close>, the sibling path: on a failed service call it dispatches
  \<^verbatim>\<open>SET_UNAUTHENTICATED\<close> first and \<^verbatim>\<open>SET_ERROR\<close> after it.
\<close>

definition AuthProvider_signOut :: "outcome \<Rightarrow> AuthStateType \<Rightarrow> AuthStateType" where
  "AuthProvider_signOut res state =
     (let s1 = authReducer state AuthAction.SET_LOADING in
      case res of
        Resolved \<Rightarrow> authReducer s1 AuthAction.SET_UNAUTHENTICATED
      | Rejected e \<Rightarrow>
          authReducer (authReducer s1 AuthAction.SET_UNAUTHENTICATED)
            (AuthAction.SET_ERROR
               \<lparr>code = ''SIGN_OUT_ERROR'', message = ''Sign-out completed with warnings'',
                originalError = (case e of JsError n m c \<Rightarrow> Some e | NonError \<Rightarrow> None)\<rparr>))"

section \<open>Durable storage\<close>

record AuthSession =
  accessToken :: string
  idToken :: string
  refreshToken :: string
  user :: CognitoUser
  expiresAt :: int

text \<open>
  \<^verbatim>\<open>DiscoveryCache\<close> as \<^verbatim>\<open>JSON.parse\<close> returns it: every property may be missing, since
  \<^verbatim>\<open>JSON.stringify\<close> drops a property whose value is \<^verbatim>\<open>undefined\<close>.
\<close>

record DiscoveryCache =
  iotEndpoint :: "string option"
  s3Buckets :: "string list option"
  timestamp :: "int option"
  expiresAt :: "int option"

text \<open>
  A text held by \<^verbatim>\<open>localStorage\<close>: the \<^verbatim>\<open>JSON.stringify\<close> rendering of a session, that
  of a discovery cache, or \<open>Raw\<close>, a text that \<^verbatim>\<open>JSON.parse\<close> rejects (the services write
  nothing else under their keys). \<^verbatim>\<open>JSON.parse\<close> gives back the object that was rendered.
\<close>

datatype stored_text = SessionText AuthSession | CacheText DiscoveryCache | Raw string

text \<open>
  \<^verbatim>\<open>localStorage\<close>: \<^verbatim>\<open>setItem\<close> throws when the quota is exceeded, which the flag
  \<open>quotaExceeded\<close> stands for.
\<close>

record Storage =
  items :: "string \<rightharpoonup> stored_text"
  quotaExceeded :: bool

definition getItem :: "string \<Rightarrow> Storage \<Rightarrow> stored_text option" where
  "getItem k st = items st k"

definition setItem :: "string \<Rightarrow> stored_text \<Rightarrow> Storage \<Rightarrow> thrown + Storage" where
  "setItem k v st =
     (if quotaExceeded st then Inl (JsError ''QuotaExceededError'' [] [])
      else Inr (st\<lparr>items := (items st)(k \<mapsto> v)\<rparr>))"

definition removeItem :: "string \<Rightarrow> Storage \<Rightarrow> Storage" where
  "removeItem k st = st\<lparr>items := (items st)(k := None)\<rparr>"

section \<open>Authentication service (session)\<close>

definition SESSION_KEY :: string where
  "SESSION_KEY = ''cognito-auth-session''"

definition TOKEN_REFRESH_THRESHOLD :: int where
  "TOKEN_REFRESH_THRESHOLD = 5 * 60 * 1000"

text \<open>
  The service's fields, with the global \<^verbatim>\<open>localStorage\<close> it reads and writes. The pending
  refresh timer is the delay it was set with.
\<close>

record AuthService =
  currentSession :: "AuthSession option"
  refreshTimer :: "int option"
  localStorage :: Storage

definition storeSession :: "AuthSession \<Rightarrow> AuthService \<Rightarrow> AuthService" where
  "storeSession sess svc =
     (case setItem SESSION_KEY (SessionText sess) (localStorage svc) of
        Inr st \<Rightarrow> svc\<lparr>localStorage := st\<rparr>
      | Inl e \<Rightarrow> svc)"

definition clearStoredSession :: "AuthService \<Rightarrow> AuthService" where
  "clearStoredSession svc =
     svc\<lparr>localStorage := removeItem SESSION_KEY (localStorage svc),
         currentSession := None, refreshTimer := None\<rparr>"

definition scheduleTokenRefresh :: "int \<Rightarrow> AuthService \<Rightarrow> AuthService" where
  "scheduleTokenRefresh now svc =
     (case currentSession svc of
        None \<Rightarrow> svc
      | Some sess \<Rightarrow>
          if refreshTimer svc \<noteq> None then svc
          else let timeUntilRefresh = AuthSession.expiresAt sess - now - TOKEN_REFRESH_THRESHOLD
               in if timeUntilRefresh > 0 then svc\<lparr>refreshTimer := Some timeUntilRefresh\<rparr>
                  else svc)"

text \<open>\<^verbatim>\<open>getCurrentUser\<close> returns the user or null, and the service as it leaves it.\<close>

definition getCurrentUser :: "int \<Rightarrow> AuthService \<Rightarrow> CognitoUser option \<times> AuthService" where
  "getCurrentUser now svc =
     (case currentSession svc of
        None \<Rightarrow> (None, svc)
      | Some sess \<Rightarrow>
          if now \<ge> AuthSession.expiresAt sess then (None, clearStoredSession svc)
          else (Some (AuthSession.user sess), svc))"

definition isAuthenticated :: "int \<Rightarrow> AuthService \<Rightarrow> bool" where
  "isAuthenticated now svc =
     (case currentSession svc of None \<Rightarrow> False
      | Some sess \<Rightarrow> now < AuthSession.expiresAt sess)"

text \<open>
  \<^verbatim>\<open>AuthService.signIn\<close>. The identity provider's answer to \<^verbatim>\<open>InitiateAuth\<close> and the outcome
  of \<^verbatim>\<open>createCognitoUser\<close> (the user it assembles, or what \<^verbatim>\<open>GetUser\<close> threw) are
  arguments. A missing token or challenge name is the empty string, a missing
  \<^verbatim>\<open>ExpiresIn\<close> is 0. The discovery warm-up and the IoT policy attachment that follow a
  successful sign-in run inside their own \<^verbatim>\<open>try/catch\<close> and change neither the result
  nor the session; they are left out.
\<close>

record AuthenticationResultType =
  AccessToken :: string
  IdToken :: string
  RefreshToken :: string
  ExpiresIn :: int

record InitiateAuthResponse =
  AuthenticationResult :: "AuthenticationResultType option"
  ChallengeName :: string
  Session :: "string option"

definition createCognitoUser :: "thrown + CognitoUser \<Rightarrow> thrown + CognitoUser" where
  "createCognitoUser got =
     (case got of
        Inr u \<Rightarrow> Inr u
      | Inl e \<Rightarrow> Inl (JsError ''Error'' ''Failed to retrieve user information'' []))"

definition truthy_string :: "string \<Rightarrow> string option" where
  "truthy_string x = (if x = [] then None else Some x)"

definition signIn_try ::
  "int \<Rightarrow> string \<Rightarrow> thrown + InitiateAuthResponse \<Rightarrow> thrown + CognitoUser \<Rightarrow> AuthService
     \<Rightarrow> (thrown + AuthResult) \<times> AuthService" where
  "signIn_try now uname sent got svc =
     (case sent of
        Inl e \<Rightarrow> (Inl e, svc)
      | Inr response \<Rightarrow>
          (case AuthenticationResult response of
             Some ar \<Rightarrow>
               if AccessToken ar = [] \<or> IdToken ar = []
               then (Inl (JsError ''Error'' ''Missing authentication tokens'' []), svc)
               else (case createCognitoUser got of
                       Inl e \<Rightarrow> (Inl e, svc)
                     | Inr u \<Rightarrow>
                         let sess =
                               \<lparr>AuthSession.accessToken = AccessToken ar,
                                AuthSession.idToken = IdToken ar,
                                AuthSession.refreshToken = RefreshToken ar,
                                AuthSession.user = u,
                                AuthSession.expiresAt =
                                  now + (if ExpiresIn ar = 0 then 3600 else ExpiresIn ar) * 1000\<rparr>;
                             svc1 = svc\<lparr>currentSession := Some sess\<rparr>;
                             svc2 = storeSession sess svc1;
                             svc3 = scheduleTokenRefresh now svc2
                         in (Inr \<lparr>AuthResult.user = u, challengeName = None, session = None,
                                  AuthResult.accessToken = Some (AccessToken ar),
                                  AuthResult.idToken = Some (IdToken ar),
                                  AuthResult.refreshToken = truthy_string (RefreshToken ar)\<rparr>,
                             svc3))
           | None \<Rightarrow>
               if ChallengeName response \<noteq> []
               then (Inr \<lparr>AuthResult.user = \<lparr>username = uname, email = None, attributes = []\<rparr>,
                          challengeName = Some (ChallengeName response),
                          session = Session response,
                          AuthResult.accessToken = None, AuthResult.idToken = None,
                          AuthResult.refreshToken = None\<rparr>, svc)
               else (Inl (JsError ''Error'' ''Unexpected authentication response'' []), svc)))"

text \<open>The \<^verbatim>\<open>catch\<close> block of \<^verbatim>\<open>AuthService.signIn\<close>: what it throws in place of \<open>e\<close>.\<close>

definition signIn_catch :: "thrown \<Rightarrow> thrown" where
  "signIn_catch e =
     JsError ''Error''
       (case e of
          NonError \<Rightarrow> ''Sign-in failed. Please try again''
        | JsError n m c \<Rightarrow>
            if n = ''NotAuthorizedException'' then ''Invalid username or password''
            else if n = ''UserNotConfirmedException'' then ''User account not confirmed''
            else if n = ''PasswordResetRequiredException'' then ''Password reset required''
            else if n = ''UserNotFoundException'' then ''User not found''
            else if n = ''TooManyRequestsException''
            then ''Too many requests. Please try again later''
            else ''Sign-in failed. Please try again'')
       []"

definition AuthService_signIn ::
  "int \<Rightarrow> string \<Rightarrow> thrown + InitiateAuthResponse \<Rightarrow> thrown + CognitoUser \<Rightarrow> AuthService
     \<Rightarrow> (thrown + AuthResult) \<times> AuthService" where
  "AuthService_signIn now uname sent got svc =
     (case signIn_try now uname sent got svc of
        (Inr r, svc') \<Rightarrow> (Inr r, svc')
      | (Inl e, svc') \<Rightarrow> (Inl (signIn_catch e), svc'))"

text \<open>
  A sign-in attempt end to end: the provider's \<^verbatim>\<open>signIn\<close> around the service's.
\<close>

definition signIn_attempt ::
  "int \<Rightarrow> string \<Rightarrow> thrown + InitiateAuthResponse \<Rightarrow> thrown + CognitoUser
     \<Rightarrow> AuthService \<Rightarrow> AuthStateType \<Rightarrow> AuthStateType" where
  "signIn_attempt now uname sent got svc state =
     AuthProvider_signIn (fst (AuthService_signIn now uname sent got svc)) state"

section \<open>Discovery service (cache)\<close>

definition CACHE_DURATION :: int where
  "CACHE_DURATION = 1000 * 60 * 60"

definition CACHE_KEY :: string where
  "CACHE_KEY = ''aws-service-discovery-cache''"

text \<open>
  \<^verbatim>\<open>Partial<DiscoveryCache>\<close>: a property is absent, or given with a value that may be
  \<^verbatim>\<open>undefined\<close> (\<open>Given None\<close>). In \<^verbatim>\<open>{ timestamp, expiresAt: ..., ...cache }\<close> a given
  property of \<^verbatim>\<open>cache\<close> replaces the one written before the spread.
\<close>

datatype 'a property = Absent | Given "'a option"

record PartialDiscoveryCache =
  p_iotEndpoint :: "string property"
  p_s3Buckets :: "string list property"
  p_timestamp :: "int property"
  p_expiresAt :: "int property"

fun spread :: "'a option \<Rightarrow> 'a property \<Rightarrow> 'a option" where
  "spread before Absent = before"
| "spread before (Given v) = v"

text \<open>
  \<^verbatim>\<open>JSON.parse(cached)\<close> read as a \<^verbatim>\<open>DiscoveryCache\<close>: of a rendered session only
  \<^verbatim>\<open>expiresAt\<close> is a property the cache has.
\<close>

fun JSON_parse_cache :: "stored_text \<Rightarrow> thrown + DiscoveryCache" where
  "JSON_parse_cache (CacheText c) = Inr c"
| "JSON_parse_cache (SessionText s) =
     Inr \<lparr>iotEndpoint = None, s3Buckets = None, DiscoveryCache.timestamp = None,
          DiscoveryCache.expiresAt = Some (AuthSession.expiresAt s)\<rparr>"
| "JSON_parse_cache (Raw s) = Inl (JsError ''SyntaxError'' [] [])"

text \<open>\<^verbatim>\<open>Date.now() > x\<close> where \<open>x\<close> may be \<^verbatim>\<open>undefined\<close>: the comparison is then false.\<close>

fun after :: "int \<Rightarrow> int option \<Rightarrow> bool" where
  "after now None = False"
| "after now (Some x) = (now > x)"

definition getCachedResults :: "int \<Rightarrow> Storage \<Rightarrow> DiscoveryCache option \<times> Storage" where
  "getCachedResults now st =
     (case getItem CACHE_KEY st of
        None \<Rightarrow> (None, st)
      | Some cached \<Rightarrow>
          if cached = Raw [] then (None, st)
          else (case JSON_parse_cache cached of
                  Inl e \<Rightarrow> (None, removeItem CACHE_KEY st)
                | Inr parsedCache \<Rightarrow>
                    if after now (DiscoveryCache.expiresAt parsedCache)
                    then (None, removeItem CACHE_KEY st)
                    else (Some parsedCache, st)))"

definition setCachedResults :: "int \<Rightarrow> PartialDiscoveryCache \<Rightarrow> Storage \<Rightarrow> Storage" where
  "setCachedResults now cache st =
     (let timestamp = now;
          cacheData =
            \<lparr>iotEndpoint = spread None (p_iotEndpoint cache),
             s3Buckets = spread None (p_s3Buckets cache),
             DiscoveryCache.timestamp = spread (Some timestamp) (p_timestamp cache),
             DiscoveryCache.expiresAt =
               spread (Some (timestamp + CACHE_DURATION)) (p_expiresAt cache)\<rparr>
      in case setItem CACHE_KEY (CacheText cacheData) st of
           Inr st' \<Rightarrow> st'
         | Inl e \<Rightarrow> st)"

definition clearCache :: "Storage \<Rightarrow> Storage" where
  "clearCache st = removeItem CACHE_KEY st"

definition isCacheValid :: "int \<Rightarrow> Storage \<Rightarrow> bool \<times> Storage" where
  "isCacheValid now st =
     (case getCachedResults now st of (cached, st') \<Rightarrow> (cached \<noteq> None, st'))"

section \<open>S3 context (reducer and refresh)\<close>

record S3Object =
  key :: string
  lastModified :: int
  size_bytes :: nat
  url :: string
  etag :: "string option"

record S3ListResult =
  objects :: "S3Object list"
  isTruncated :: bool
  totalCount :: nat

record S3State =
  images :: "S3Object list"
  loading :: bool
  error :: "string option"
  lastUpdated :: "int option"
  selectedBucket :: "string option"
  availableBuckets :: "string list"
  hasMore :: bool
  refreshing :: bool
  lastRefreshTime :: "int option"
  lastImageEtag :: "string option"

datatype S3Action =
  SET_LOADING bool
  | SET_REFRESHING bool
  | SET_ERROR "string option"
  | SET_IMAGES "S3Object list" bool
  | SET_BUCKETS "string list"
  | SET_SELECTED_BUCKET "string option"
  | UPDATE_LAST_UPDATED
  | RESET_STATE

definition initialState_s3 :: S3State where
  "initialState_s3 =
     \<lparr>images = [], loading = False, S3State.error = None, lastUpdated = None,
      selectedBucket = None, availableBuckets = [], hasMore = False, refreshing = False,
      lastRefreshTime = None, lastImageEtag = None\<rparr>"

text \<open>\<^verbatim>\<open>action.payload.images[0]?.etag || null\<close>.\<close>

definition first_etag :: "S3Object list \<Rightarrow> string option" where
  "first_etag imgs =
     (case imgs of
        [] \<Rightarrow> None
      | x # rest \<Rightarrow> (case etag x of None \<Rightarrow> None | Some e \<Rightarrow> truthy_string e))"

text \<open>
  The reducer; \<open>now\<close> is what \<^verbatim>\<open>new Date()\<close> gives when the action is reduced.
\<close>

fun s3Reducer :: "int \<Rightarrow> S3State \<Rightarrow> S3Action \<Rightarrow> S3State" where
  "s3Reducer now state (S3Action.SET_LOADING p) = state\<lparr>loading := p\<rparr>"
| "s3Reducer now state (S3Action.SET_REFRESHING p) = state\<lparr>refreshing := p\<rparr>"
| "s3Reducer now state (S3Action.SET_ERROR p) =
     state\<lparr>S3State.error := p, loading := False, refreshing := False\<rparr>"
| "s3Reducer now state (S3Action.SET_IMAGES imgs truncated) =
     state\<lparr>images := imgs, hasMore := truncated, loading := False, refreshing := False,
           S3State.error := None, lastImageEtag := first_etag imgs\<rparr>"
| "s3Reducer now state (S3Action.SET_BUCKETS p) = state\<lparr>availableBuckets := p\<rparr>"
| "s3Reducer now state (S3Action.SET_SELECTED_BUCKET p) = state\<lparr>selectedBucket := p\<rparr>"
| "s3Reducer now state S3Action.UPDATE_LAST_UPDATED = state\<lparr>lastUpdated := Some now\<rparr>"
| "s3Reducer now state S3Action.RESET_STATE = initialState_s3"

text \<open>
  \<^verbatim>\<open>loadImages(bucketName, showLoading)\<close>. The hook's \<^verbatim>\<open>isAuthenticated\<close> and whether it has
  credentials are arguments, as are the instant of the call, the instant at which
  \<^verbatim>\<open>listImages\<close> settles, and how it settles. The result is the state after the call's
  dispatches and the number of \<^verbatim>\<open>listImages\<close> requests it sent.
\<close>

definition falsy_bucket :: "string option \<Rightarrow> bool" where
  "falsy_bucket b = (case b of None \<Rightarrow> True | Some x \<Rightarrow> x = [])"

definition loadImages ::
  "bool \<Rightarrow> bool \<Rightarrow> int \<Rightarrow> int \<Rightarrow> string option \<Rightarrow> bool \<Rightarrow> thrown + S3ListResult \<Rightarrow> S3State
     \<Rightarrow> S3State \<times> nat" where
  "loadImages authenticated credentials now settled bucketName showLoading listed state =
     (let targetBucket = (if falsy_bucket bucketName then selectedBucket state else bucketName)
      in if \<not> authenticated \<or> \<not> credentials \<or> falsy_bucket targetBucket
         then (s3Reducer now state
                 (S3Action.SET_ERROR
                    (Some (if falsy_bucket targetBucket then ''No bucket selected''
                           else ''Authentication required''))), 0)
         else
           let s1 = s3Reducer now state
                      (if showLoading then S3Action.SET_LOADING True
                       else S3Action.SET_REFRESHING True);
               s2 = s3Reducer now s1 (S3Action.SET_ERROR None)
           in (case listed of
                 Inr result \<Rightarrow>
                   (s3Reducer settled
                      (s3Reducer settled s2
                         (S3Action.SET_IMAGES (objects result) (isTruncated result)))
                      S3Action.UPDATE_LAST_UPDATED, 1)
               | Inl e \<Rightarrow>
                   (s3Reducer settled s2
                      (S3Action.SET_ERROR
                         (Some (case e of JsError n m c \<Rightarrow> m
                                | NonError \<Rightarrow> ''Failed to load images''))), 1)))"

definition minRefreshInterval :: int where
  "minRefreshInterval = 5000"

text \<open>\<^verbatim>\<open>refreshImages()\<close>, with the same arguments and result as \<open>loadImages\<close>.\<close>

definition refreshImages ::
  "bool \<Rightarrow> bool \<Rightarrow> int \<Rightarrow> int \<Rightarrow> thrown + S3ListResult \<Rightarrow> S3State \<Rightarrow> S3State \<times> nat" where
  "refreshImages authenticated credentials now settled listed state =
     (let throttled =
            (case lastRefreshTime state of
               None \<Rightarrow> False
             | Some t \<Rightarrow> now - t < minRefreshInterval)
      in if throttled then (state, 0)
         else loadImages authenticated credentials now settled None False listed
                (s3Reducer now state S3Action.UPDATE_LAST_UPDATED))"

section \<open>MQTT service (connection state machine)\<close>

definition maxReconnectAttempts :: nat where
  "maxReconnectAttempts = 3"

definition reconnectDelay :: nat where
  "reconnectDelay = 5000"

record Credentials =
  accessKeyId :: string
  secretAccessKey :: string
  sessionToken :: string

record MqttError =
  code :: string
  message :: string
  retryable :: bool

text \<open>
  The closures the service hands to \<^verbatim>\<open>setTimeout\<close>, each with the topic it captured: the
  3-second watchdog of \<^verbatim>\<open>connect\<close>, the subscription it delays by 500 ms, the 2-second
  grace timer of the disconnect handler, the reconnect timer of \<^verbatim>\<open>scheduleReconnect\<close>, and
  the welcome message that follows a subscription.
\<close>

datatype callback =
  Watchdog string
  | DelayedSubscribe string
  | GraceReconnect string
  | Reconnect string
  | WelcomeMessage

text \<open>
  What the service does to its collaborators, in order: a status passed to the status
  callbacks, \<^verbatim>\<open>connect()\<close>, \<^verbatim>\<open>subscribe\<close>, \<^verbatim>\<open>unsubscribe\<close> and \<^verbatim>\<open>disconnect()\<close> called on the
  numbered transport connection, a \<^verbatim>\<open>connect(topic)\<close> call of the service that threw, and
  the welcome message passed to the message callbacks.
\<close>

datatype effect =
  StatusNotified ConnectionStatus
  | ConnectIssued nat
  | SubscribeIssued nat string
  | UnsubscribeIssued nat string
  | DisconnectIssued nat
  | ConnectThrew MqttError
  | WelcomeDelivered string

text \<open>
  The fields of \<^verbatim>\<open>MqttService\<close> that the state machine reads or writes, followed by the
  bookkeeping of its surroundings: the timers pending in the event loop (handle, delay in
  ms, closure) and the next handle, the handlers registered on each transport connection
  (connection, captured topic) and the next connection number, the \<^verbatim>\<open>connect\<close> calls
  suspended at \<^verbatim>\<open>await this.resolveCredentials()\<close>, the \<^verbatim>\<open>subscribeToTopic\<close> calls suspended
  at \<^verbatim>\<open>await this.connection.subscribe(...)\<close>, and the effects so far. The builder calls
  between the two are taken not to throw.
\<close>

record MqttService =
  client :: "nat option"
  connection :: "nat option"
  connectionStatus :: ConnectionStatus
  reconnectAttempts :: nat
  currentTopic :: string
  reconnectTimeout :: "nat option"
  isConnecting :: bool
  manualDisconnect :: bool
  timers :: "(nat \<times> nat \<times> callback) list"
  nextTimer :: nat
  handlers :: "(nat \<times> string) list"
  nextConnection :: nat
  awaitingCredentials :: "string list"
  awaitingSubscribe :: "string list"
  effects :: "effect list"

definition mqttService :: MqttService where
  "mqttService =
     \<lparr>client = None, connection = None, MqttService.connectionStatus = DISCONNECTED,
      reconnectAttempts = 0, currentTopic = [], reconnectTimeout = None,
      isConnecting = False, manualDisconnect = False, timers = [], nextTimer = 1,
      handlers = [], nextConnection = 0, awaitingCredentials = [], awaitingSubscribe = [],
      effects = []\<rparr>"

definition emit :: "effect \<Rightarrow> MqttService \<Rightarrow> MqttService" where
  "emit x s = s\<lparr>effects := effects s @ [x]\<rparr>"

text \<open>
  \<^verbatim>\<open>setConnectionStatus\<close>: every status callback runs inside its own \<^verbatim>\<open>try/catch\<close>, so the
  notification cannot throw.
\<close>

definition setConnectionStatus :: "ConnectionStatus \<Rightarrow> MqttService \<Rightarrow> MqttService" where
  "setConnectionStatus status s =
     emit (StatusNotified status) (s\<lparr>MqttService.connectionStatus := status\<rparr>)"

definition setTimeout :: "callback \<Rightarrow> nat \<Rightarrow> MqttService \<Rightarrow> nat \<times> MqttService" where
  "setTimeout cb delay s =
     (nextTimer s,
      s\<lparr>timers := timers s @ [(nextTimer s, delay, cb)], nextTimer := nextTimer s + 1\<rparr>)"

definition clearTimeout :: "nat \<Rightarrow> MqttService \<Rightarrow> MqttService" where
  "clearTimeout t s = s\<lparr>timers := filter (\<lambda>x. fst x \<noteq> t) (timers s)\<rparr>"

text \<open>
  \<^verbatim>\<open>if (this.reconnectTimeout) { clearTimeout(this.reconnectTimeout);
  this.reconnectTimeout = null; }\<close>, which \<^verbatim>\<open>connect\<close>, \<^verbatim>\<open>scheduleReconnect\<close> and
  \<^verbatim>\<open>disconnect\<close> each contain.
\<close>

definition clearReconnectTimeout :: "MqttService \<Rightarrow> MqttService" where
  "clearReconnectTimeout s =
     (case reconnectTimeout s of
        None \<Rightarrow> s
      | Some t \<Rightarrow> (clearTimeout t s)\<lparr>reconnectTimeout := None\<rparr>)"

text \<open>\<^verbatim>\<open>String.prototype.includes\<close>.\<close>

fun starts_with :: "string \<Rightarrow> string \<Rightarrow> bool" where
  "starts_with s [] = True"
| "starts_with [] (c # cs) = False"
| "starts_with (x # xs) (c # cs) = (x = c \<and> starts_with xs cs)"

fun str_includes :: "string \<Rightarrow> string \<Rightarrow> bool" where
  "str_includes [] sub = (sub = [])"
| "str_includes (x # xs) sub = (starts_with (x # xs) sub \<or> str_includes xs sub)"

definition nonRetryableErrors :: "string list" where
  "nonRetryableErrors =
     [''ENOTFOUND'', ''ECONNREFUSED'', ''UNAUTHORIZED'', ''FORBIDDEN'',
      ''InvalidSignatureException'', ''SignatureDoesNotMatchException'',
      ''TokenRefreshRequiredException'', ''AccessDeniedException'']"

definition isRetryableError :: "thrown \<Rightarrow> bool" where
  "isRetryableError e =
     (let errorCode = (case e of NonError \<Rightarrow> []
                       | JsError n m c \<Rightarrow> if c \<noteq> [] then c else n);
          errorMessage = (case e of NonError \<Rightarrow> [] | JsError n m c \<Rightarrow> m)
      in \<not> list_ex (\<lambda>code. str_includes errorCode code \<or> str_includes errorMessage code)
             nonRetryableErrors)"

definition createMqttError :: "thrown \<Rightarrow> string \<Rightarrow> MqttError" where
  "createMqttError e msg =
     \<lparr>MqttError.code =
        (case e of NonError \<Rightarrow> ''MqttError''
         | JsError n m c \<Rightarrow> if n \<noteq> [] then n else if c \<noteq> [] then c else ''MqttError''),
      MqttError.message =
        msg @ '': '' @
        (case e of NonError \<Rightarrow> ''Unknown error''
         | JsError n m c \<Rightarrow> if m \<noteq> [] then m else ''Unknown error''),
      retryable = True\<rparr>"

text \<open>
  \<^verbatim>\<open>resolveCredentials\<close>, from what \<^verbatim>\<open>this.credentials\<close> (or the provider function it is)
  gave: a rejection, or a value that may be null.
\<close>

definition resolveCredentials :: "thrown + Credentials option \<Rightarrow> thrown + Credentials" where
  "resolveCredentials r =
     (case r of
        Inl e \<Rightarrow> Inl e
      | Inr None \<Rightarrow>
          Inl (JsError ''Error''
                 ''Missing required AWS credentials (accessKeyId or secretAccessKey)'' [])
      | Inr (Some resolved) \<Rightarrow>
          if accessKeyId resolved = [] \<or> secretAccessKey resolved = []
          then Inl (JsError ''Error''
                      ''Missing required AWS credentials (accessKeyId or secretAccessKey)'' [])
          else Inr resolved)"

text \<open>
  \<^verbatim>\<open>subscribeToTopic\<close> up to its \<^verbatim>\<open>await\<close>: the subscribe call goes to the current
  connection, if there is one.
\<close>

definition subscribeToTopic :: "string \<Rightarrow> MqttService \<Rightarrow> MqttService" where
  "subscribeToTopic tp s =
     (case connection s of
        None \<Rightarrow> s
      | Some c \<Rightarrow>
          (emit (SubscribeIssued c tp) s)\<lparr>awaitingSubscribe := awaitingSubscribe s @ [tp]\<rparr>)"

text \<open>\<^verbatim>\<open>subscribeToTopic\<close> after its \<^verbatim>\<open>await\<close>.\<close>

definition subscribeToTopic_settled :: "outcome \<Rightarrow> MqttService \<Rightarrow> MqttService" where
  "subscribeToTopic_settled r s =
     (case r of
        Resolved \<Rightarrow> snd (setTimeout WelcomeMessage 1000 s)
      | Rejected e \<Rightarrow> setConnectionStatus ERROR s)"

definition simulateWelcomeMessage :: "MqttService \<Rightarrow> MqttService" where
  "simulateWelcomeMessage s = emit (WelcomeDelivered (currentTopic s)) s"

definition scheduleReconnect :: "string \<Rightarrow> MqttService \<Rightarrow> MqttService" where
  "scheduleReconnect tp s =
     (if reconnectAttempts s \<ge> maxReconnectAttempts then setConnectionStatus ERROR s
      else
        let s1 = clearReconnectTimeout s;
            s2 = s1\<lparr>reconnectAttempts := reconnectAttempts s1 + 1\<rparr>;
            delay = reconnectDelay * 2 ^ (reconnectAttempts s2 - 1);
            s3 = setConnectionStatus RECONNECTING s2;
            (t, s4) = setTimeout (Reconnect tp) delay s3
        in s4\<lparr>reconnectTimeout := Some t\<rparr>)"

text \<open>
  \<^verbatim>\<open>connect(topic)\<close> up to \<^verbatim>\<open>await this.resolveCredentials()\<close>. The two guards return
  at once; otherwise the call is left suspended.
\<close>

definition connect_begin :: "string \<Rightarrow> MqttService \<Rightarrow> MqttService" where
  "connect_begin tp s =
     (if isConnecting s then s
      else if MqttService.connectionStatus s = CONNECTED then s
      else
        let s1 = clearReconnectTimeout s;
            s2 = s1\<lparr>isConnecting := True, manualDisconnect := False\<rparr>;
            s3 = setConnectionStatus CONNECTING s2;
            s4 = s3\<lparr>currentTopic := tp\<rparr>
        in s4\<lparr>awaitingCredentials := awaitingCredentials s4 @ [tp]\<rparr>)"

text \<open>
  \<^verbatim>\<open>connect(topic)\<close> from the credentials on: a new client and connection, the handlers
  registered on it, \<^verbatim>\<open>this.connection.connect()\<close> and the watchdog; or the \<^verbatim>\<open>catch\<close> block.
\<close>

definition connect_resume ::
  "string \<Rightarrow> thrown + Credentials option \<Rightarrow> MqttService \<Rightarrow> MqttService" where
  "connect_resume tp r s =
     (case resolveCredentials r of
        Inl e \<Rightarrow>
          emit (ConnectThrew (createMqttError e ''Failed to connect to MQTT''))
            (setConnectionStatus ERROR (s\<lparr>isConnecting := False\<rparr>))
      | Inr resolvedCredentials \<Rightarrow>
          let c = nextConnection s;
              s1 = s\<lparr>client := Some c, connection := Some c,
                     handlers := handlers s @ [(c, tp)], nextConnection := c + 1\<rparr>;
              s2 = emit (ConnectIssued c) s1
          in snd (setTimeout (Watchdog tp) 3000 s2))"

text \<open>The handlers \<^verbatim>\<open>connect\<close> registers, each closed over the topic of its call.\<close>

definition on_connect :: "string \<Rightarrow> MqttService \<Rightarrow> MqttService" where
  "on_connect tp s =
     subscribeToTopic tp
       ((setConnectionStatus CONNECTED s)\<lparr>reconnectAttempts := 0, isConnecting := False\<rparr>)"

definition on_interrupt :: "MqttService \<Rightarrow> MqttService" where
  "on_interrupt s = setConnectionStatus DISCONNECTED s"

definition on_resume :: "MqttService \<Rightarrow> MqttService" where
  "on_resume s = setConnectionStatus CONNECTED s"

definition on_disconnect :: "string \<Rightarrow> MqttService \<Rightarrow> MqttService" where
  "on_disconnect tp s =
     (let s1 = s\<lparr>isConnecting := False\<rparr>
      in if \<not> manualDisconnect s1
         then let s2 = setConnectionStatus DISCONNECTED s1
              in if reconnectAttempts s2 = 0
                 then snd (setTimeout (GraceReconnect tp) 2000 s2)
                 else scheduleReconnect tp s2
         else s1)"

definition on_error :: "string \<Rightarrow> thrown \<Rightarrow> MqttService \<Rightarrow> MqttService" where
  "on_error tp e s =
     (let s1 = setConnectionStatus ERROR (s\<lparr>isConnecting := False\<rparr>)
      in if \<not> manualDisconnect s1 \<and> isRetryableError e then scheduleReconnect tp s1
         else s1)"

text \<open>The \<^verbatim>\<open>then\<close> and \<^verbatim>\<open>catch\<close> of \<^verbatim>\<open>this.connection.connect()\<close>.\<close>

definition connect_promise :: "string \<Rightarrow> outcome \<Rightarrow> MqttService \<Rightarrow> MqttService" where
  "connect_promise tp r s =
     (case r of
        Resolved \<Rightarrow>
          if MqttService.connectionStatus s \<noteq> CONNECTED
          then subscribeToTopic tp
                 ((setConnectionStatus CONNECTED s)
                    \<lparr>reconnectAttempts := 0, isConnecting := False\<rparr>)
          else s
      | Rejected e \<Rightarrow> setConnectionStatus ERROR (s\<lparr>isConnecting := False\<rparr>))"

text \<open>The timer closures.\<close>

definition watchdog :: "string \<Rightarrow> MqttService \<Rightarrow> MqttService" where
  "watchdog tp s =
     (if MqttService.connectionStatus s = CONNECTING
      then snd (setTimeout (DelayedSubscribe tp) 500
                  ((setConnectionStatus CONNECTED s)
                     \<lparr>reconnectAttempts := 0, isConnecting := False\<rparr>))
      else s)"

definition grace_elapsed :: "string \<Rightarrow> MqttService \<Rightarrow> MqttService" where
  "grace_elapsed tp s =
     (if \<not> manualDisconnect s \<and> MqttService.connectionStatus s = DISCONNECTED
      then scheduleReconnect tp s
      else s)"

definition reconnect_elapsed :: "string \<Rightarrow> MqttService \<Rightarrow> MqttService" where
  "reconnect_elapsed tp s = connect_begin tp (s\<lparr>reconnectTimeout := None\<rparr>)"

fun run_callback :: "callback \<Rightarrow> MqttService \<Rightarrow> MqttService" where
  "run_callback (Watchdog tp) s = watchdog tp s"
| "run_callback (DelayedSubscribe tp) s = subscribeToTopic tp s"
| "run_callback (GraceReconnect tp) s = grace_elapsed tp s"
| "run_callback (Reconnect tp) s = reconnect_elapsed tp s"
| "run_callback WelcomeMessage s = simulateWelcomeMessage s"

text \<open>
  \<^verbatim>\<open>disconnect()\<close>. \<open>disconnect_begin\<close> is the synchronous start: the flag, the reconnect
  timer and the attempt counter. \<open>disconnect_cleanup\<close> is the \<^verbatim>\<open>if (this.connection)\<close>
  block with its \<^verbatim>\<open>try/catch\<close>: it takes how \<^verbatim>\<open>unsubscribe\<close> and the transport's
  \<^verbatim>\<open>disconnect\<close> settle, and two state transformers that stand for whatever the event
  loop runs while the call is suspended at each of the two \<^verbatim>\<open>await\<close>s. When the
  connection is gone at the second call, \<^verbatim>\<open>this.connection.disconnect()\<close> throws a
  \<^verbatim>\<open>TypeError\<close> into the same \<^verbatim>\<open>catch\<close>. An awaited call is taken to settle.
\<close>

definition disconnect_begin :: "MqttService \<Rightarrow> MqttService" where
  "disconnect_begin s =
     (let s1 = s\<lparr>manualDisconnect := True\<rparr>;
          s2 = clearReconnectTimeout s1
      in s2\<lparr>reconnectAttempts := 0\<rparr>)"

definition disconnect_cleanup ::
  "outcome \<Rightarrow> outcome \<Rightarrow> (MqttService \<Rightarrow> MqttService) \<Rightarrow> (MqttService \<Rightarrow> MqttService)
     \<Rightarrow> MqttService \<Rightarrow> MqttService" where
  "disconnect_cleanup unsubscribed closed during1 during2 s =
     (case connection s of
        None \<Rightarrow> s
      | Some c \<Rightarrow>
          let (r1, s1) =
                (if currentTopic s \<noteq> []
                 then (unsubscribed, during1 (emit (UnsubscribeIssued c (currentTopic s)) s))
                 else (Resolved, s))
          in (case r1 of
                Rejected e \<Rightarrow> s1
              | Resolved \<Rightarrow>
                  (case connection s1 of
                     None \<Rightarrow> s1
                   | Some c' \<Rightarrow>
                       let s2 = during2 (emit (DisconnectIssued c') s1)
                       in (case closed of
                             Rejected e \<Rightarrow> s2
                           | Resolved \<Rightarrow> s2\<lparr>connection := None, client := None\<rparr>))))"

definition disconnect_interleaved ::
  "outcome \<Rightarrow> outcome \<Rightarrow> (MqttService \<Rightarrow> MqttService) \<Rightarrow> (MqttService \<Rightarrow> MqttService)
     \<Rightarrow> MqttService \<Rightarrow> MqttService" where
  "disconnect_interleaved unsubscribed closed during1 during2 s =
     setConnectionStatus DISCONNECTED
       (disconnect_cleanup unsubscribed closed during1 during2 (disconnect_begin s))"

text \<open>\<^verbatim>\<open>disconnect()\<close> with nothing else running while it is suspended.\<close>

definition disconnect :: "outcome \<Rightarrow> outcome \<Rightarrow> MqttService \<Rightarrow> MqttService" where
  "disconnect unsubscribed closed s =
     disconnect_interleaved unsubscribed closed (\<lambda>x. x) (\<lambda>x. x) s"

text \<open>
  What reaches the service: a call of \<^verbatim>\<open>connect(topic)\<close>; the credentials of a suspended
  \<^verbatim>\<open>connect\<close> settling; a lifecycle event of a transport connection; the promise of its
  \<^verbatim>\<open>connect()\<close> settling; a suspended subscription settling; a pending timer firing; a call
  of \<^verbatim>\<open>disconnect()\<close>. An event that has no addressee (no such suspended call, no
  handlers on that connection, no such pending timer) changes nothing.
\<close>

datatype event =
  ConnectCalled string
  | CredentialsSettled string "thrown + Credentials option"
  | ConnectEvent nat
  | InterruptEvent nat
  | ResumeEvent nat
  | DisconnectEvent nat
  | ErrorEvent nat thrown
  | ConnectPromiseSettled nat outcome
  | SubscribeSettled string outcome
  | TimerFired nat
  | DisconnectCalled outcome outcome

definition with_handlers ::
  "nat \<Rightarrow> (string \<Rightarrow> MqttService \<Rightarrow> MqttService) \<Rightarrow> MqttService \<Rightarrow> MqttService" where
  "with_handlers c h s = (case map_of (handlers s) c of None \<Rightarrow> s | Some tp \<Rightarrow> h tp s)"

fun step :: "MqttService \<Rightarrow> event \<Rightarrow> MqttService" where
  "step s (ConnectCalled tp) = connect_begin tp s"
| "step s (CredentialsSettled tp r) =
     (if tp \<in> set (awaitingCredentials s)
      then connect_resume tp r (s\<lparr>awaitingCredentials := remove1 tp (awaitingCredentials s)\<rparr>)
      else s)"
| "step s (ConnectEvent c) = with_handlers c on_connect s"
| "step s (InterruptEvent c) = with_handlers c (\<lambda>tp. on_interrupt) s"
| "step s (ResumeEvent c) = with_handlers c (\<lambda>tp. on_resume) s"
| "step s (DisconnectEvent c) = with_handlers c on_disconnect s"
| "step s (ErrorEvent c e) = with_handlers c (\<lambda>tp. on_error tp e) s"
| "step s (ConnectPromiseSettled c r) = with_handlers c (\<lambda>tp. connect_promise tp r) s"
| "step s (SubscribeSettled tp r) =
     (if tp \<in> set (awaitingSubscribe s)
      then subscribeToTopic_settled r
             (s\<lparr>awaitingSubscribe := remove1 tp (awaitingSubscribe s)\<rparr>)
      else s)"
| "step s (TimerFired t) =
     (case map_of (timers s) t of
        None \<Rightarrow> s
      | Some (delay, cb) \<Rightarrow> run_callback cb (clearTimeout t s))"
| "step s (DisconnectCalled unsubscribed closed) = disconnect unsubscribed closed s"

definition run :: "event list \<Rightarrow> MqttService" where
  "run evs = foldl step mqttService evs"

text \<open>How often the service called \<^verbatim>\<open>subscribe\<close>, and how many transports it opened.\<close>

fun is_subscribe :: "effect \<Rightarrow> bool" where
  "is_subscribe (SubscribeIssued c tp) = True"
| "is_subscribe x = False"

fun is_connect :: "effect \<Rightarrow> bool" where
  "is_connect (ConnectIssued c) = True"
| "is_connect x = False"

definition subscribes :: "MqttService \<Rightarrow> nat" where
  "subscribes s = length (filter is_subscribe (effects s))"

definition transports :: "MqttService \<Rightarrow> nat" where
  "transports s = length (filter is_connect (effects s))"

text \<open>
  The timer bookkeeping that holds along every run: timer handles are below the next
  handle and distinct, and the only reconnect timer that can be pending is the one whose
  handle \<^verbatim>\<open>reconnectTimeout\<close> holds.
\<close>

fun is_reconnect :: "callback \<Rightarrow> bool" where
  "is_reconnect (Reconnect tp) = True"
| "is_reconnect cb = False"

definition reconnect_timers :: "MqttService \<Rightarrow> (nat \<times> nat \<times> callback) list" where
  "reconnect_timers s = filter (\<lambda>x. is_reconnect (snd (snd x))) (timers s)"

definition timers_tracked :: "MqttService \<Rightarrow> bool" where
  "timers_tracked s =
     (list_all (\<lambda>x. fst x < nextTimer s) (timers s)
      \<and> distinct (map fst (timers s))
      \<and> list_all (\<lambda>x. reconnectTimeout s = Some (fst x)) (reconnect_timers s))"

section \<open>Sample inputs\<close>

text \<open>Concrete values at which the properties below are evaluated.\<close>

definition msg :: "nat \<Rightarrow> MqttMessage" where
  "msg n = \<lparr>topic = ''dashboard/messages'', payload = ''{}'', MqttMessage.timestamp = int n,
            qos = 1\<rparr>"

text \<open>A feed holding messages 99 down to 0, the most recent first.\<close>

definition full_feed :: MqttState where
  "full_feed =
     \<lparr>connected = True, messages = map msg (rev [0..<100]), MqttState.error = None,
      MqttState.connectionStatus = CONNECTED, lastMessage = Some (msg 99),
      messageCount = 100\<rparr>"

definition listing :: S3ListResult where
  "listing =
     \<lparr>objects =
        [\<lparr>key = ''camera/latest-inference.jpg'', lastModified = 500, size_bytes = 1024,
          url = ''https://bucket/camera/latest-inference.jpg'', etag = Some ''v1''\<rparr>],
      isTruncated = False, totalCount = 1\<rparr>"

definition bucket_selected :: S3State where
  "bucket_selected =
     s3Reducer 0 initialState_s3 (S3Action.SET_SELECTED_BUCKET (Some ''bucket''))"

definition alice :: CognitoUser where
  "alice = \<lparr>username = ''alice'', email = None, attributes = []\<rparr>"

definition alice_session :: AuthSession where
  "alice_session =
     \<lparr>AuthSession.accessToken = ''access'', AuthSession.idToken = ''id'',
      AuthSession.refreshToken = ''refresh'', AuthSession.user = alice,
      AuthSession.expiresAt = 1000\<rparr>"

text \<open>A service holding a session that expires at instant 1000, stored and in memory.\<close>

definition signed_in :: AuthService where
  "signed_in =
     \<lparr>currentSession = Some alice_session, refreshTimer = Some 700,
      localStorage =
        \<lparr>items = [SESSION_KEY \<mapsto> SessionText alice_session], quotaExceeded = False\<rparr>\<rparr>"

definition empty_storage :: Storage where
  "empty_storage = \<lparr>items = Map.empty, quotaExceeded = False\<rparr>"

definition temporary_credentials :: "thrown + Credentials option" where
  "temporary_credentials =
     Inr (Some \<lparr>accessKeyId = ''ASIA'', secretAccessKey = ''secret'', sessionToken = ''token''\<rparr>)"

text \<open>
  A slow connection: \<^verbatim>\<open>connect\<close> is called twice in a row, the credentials resolve, the
  3-second watchdog (timer 1) fires before any acknowledgement, its delayed subscription
  (timer 2) runs, and then the transport's \<^verbatim>\<open>connect\<close> event arrives.
\<close>

definition slow_connect :: "event list" where
  "slow_connect =
     [ConnectCalled ''dashboard/messages'',
      ConnectCalled ''dashboard/messages'',
      CredentialsSettled ''dashboard/messages'' temporary_credentials,
      TimerFired 1,
      TimerFired 2,
      ConnectEvent 0]"

text \<open>
  A connection that is established and subscribed (timer 1 is the watchdog, timer 2 the
  welcome message).
\<close>

definition established :: "event list" where
  "established =
     [ConnectCalled ''dashboard/messages'',
      CredentialsSettled ''dashboard/messages'' temporary_credentials,
      ConnectEvent 0,
      SubscribeSettled ''dashboard/messages'' Resolved,
      TimerFired 1,
      TimerFired 2]"

definition connection_reset :: thrown where
  "connection_reset = JsError ''Error'' ''socket hang up'' ''ECONNRESET''"

text \<open>
  The established connection then emits retryable \<^verbatim>\<open>error\<close> events: one, two, three and
  four of them. After the fourth, the reconnect timer that is still pending (timer 5) fires
  and the credentials of the \<^verbatim>\<open>connect\<close> it called resolve.
\<close>

definition one_error :: "event list" where
  "one_error = established @ [ErrorEvent 0 connection_reset]"

definition two_errors :: "event list" where
  "two_errors = one_error @ [ErrorEvent 0 connection_reset]"

definition three_errors :: "event list" where
  "three_errors = two_errors @ [ErrorEvent 0 connection_reset]"

definition repeated_errors :: "event list" where
  "repeated_errors = three_errors @ [ErrorEvent 0 connection_reset]"

definition timer_after_cap :: "event list" where
  "timer_after_cap = repeated_errors @ [TimerFired 5]"

definition reconnect_after_cap :: "event list" where
  "reconnect_after_cap =
     timer_after_cap @ [CredentialsSettled ''dashboard/messages'' temporary_credentials]"

text \<open>
  The established connection drops unexpectedly (a \<^verbatim>\<open>disconnect\<close> event without a manual
  disconnect), and its grace timer (timer 3) fires.
\<close>

definition dropped :: "event list" where
  "dropped = established @ [DisconnectEvent 0]"

definition grace_over :: "event list" where
  "grace_over = dropped @ [TimerFired 3]"

text \<open>
  The service with its first connection established and subscribed, at a given status,
  attempt counter, reconnect timer handle, timer table, next timer handle and effects
  since the subscription.
\<close>

definition snapshot ::
  "ConnectionStatus \<Rightarrow> nat \<Rightarrow> nat option \<Rightarrow> (nat \<times> nat \<times> callback) list \<Rightarrow> nat
     \<Rightarrow> effect list \<Rightarrow> MqttService" where
  "snapshot status attempts handle table next since =
     \<lparr>client = Some 0, connection = Some 0, MqttService.connectionStatus = status,
      reconnectAttempts = attempts, currentTopic = ''dashboard/messages'',
      reconnectTimeout = handle, isConnecting = False, manualDisconnect = False,
      timers = table, nextTimer = next, handlers = [(0, ''dashboard/messages'')],
      nextConnection = 1, awaitingCredentials = [], awaitingSubscribe = [],
      effects =
        [StatusNotified CONNECTING, ConnectIssued 0, StatusNotified CONNECTED,
         SubscribeIssued 0 ''dashboard/messages'', WelcomeDelivered ''dashboard/messages'']
        @ since\<rparr>"

chapter \<open>Properties\<close>

section \<open>MQTT context\<close>

lemma take_100_Cons_take: "take 100 (p # take 100 xs) = take 100 (p # xs)"
  by (simp add: take_Cons')

lemma dispatched_mqtt_snoc:
  "dispatched_mqtt (acts @ [a]) = mqttReducer (dispatched_mqtt acts) a"
  by (simp add: dispatched_mqtt_def)

lemma inserted_snoc: "inserted (acts @ [a]) = inserted_step (inserted acts) a"
  by (simp add: inserted_def)

text \<open>
  After any sequence of dispatches the feed is the 100 most recent of the messages
  inserted since the last clear, newest first.
\<close>

lemma messages_dispatched:
  "messages (dispatched_mqtt acts) = take 100 (rev (inserted acts))"
proof (induction acts rule: rev_induct)
  case Nil
  show ?case by (simp add: dispatched_mqtt_def inserted_def initialState_mqtt_def)
next
  case (snoc a acts)
  show ?case
    by (cases a)
      (simp_all add: dispatched_mqtt_snoc inserted_snoc snoc.IH take_100_Cons_take
        initialState_mqtt_def)
qed

lemma messageCount_dispatched:
  "messageCount (dispatched_mqtt acts) = length (inserted acts)"
proof (induction acts rule: rev_induct)
  case Nil
  show ?case by (simp add: dispatched_mqtt_def inserted_def initialState_mqtt_def)
next
  case (snoc a acts)
  show ?case
    by (cases a)
      (simp_all add: dispatched_mqtt_snoc inserted_snoc snoc.IH initialState_mqtt_def)
qed

lemma add_message_full:
  assumes "length (messages state) = 100"
  shows "messages (mqttReducer state (MqttAction.ADD_MESSAGE p)) = p # butlast (messages state)"
proof -
  have "take 99 (messages state) = butlast (messages state)"
    using assms by (simp add: butlast_conv_take)
  then show ?thesis by (simp add: take_Cons')
qed

text \<open>
  C5. The message sequence of the MQTT state never exceeds 100 entries and is ordered
  most recent first: after any dispatches from the initial state it is the first 100 of
  the inserted messages in reverse order of insertion. An insertion puts the new message
  at the front; into a sequence with room it keeps every older message, into a full
  sequence of 100 it drops the last one, which is the earliest inserted. The message
  count goes up by exactly 1 on every insertion, evicting or not.
\<close>

theorem message_feed_bounded_most_recent_first:
  "messages (dispatched_mqtt acts) = take 100 (rev (inserted acts))
   \<and> length (messages (dispatched_mqtt acts)) \<le> 100
   \<and> messageCount (dispatched_mqtt acts) = length (inserted acts)
   \<and> length (messages (mqttReducer state (MqttAction.ADD_MESSAGE p))) \<le> 100
   \<and> hd (messages (mqttReducer state (MqttAction.ADD_MESSAGE p))) = p
   \<and> (length (messages state) < 100 \<longrightarrow>
        messages (mqttReducer state (MqttAction.ADD_MESSAGE p)) = p # messages state)
   \<and> (length (messages state) = 100 \<longrightarrow>
        messages (mqttReducer state (MqttAction.ADD_MESSAGE p)) = p # butlast (messages state))
   \<and> messageCount (mqttReducer state (MqttAction.ADD_MESSAGE p)) = messageCount state + 1"
proof -
  have bounded: "length (messages (dispatched_mqtt acts)) \<le> 100"
    by (simp add: messages_dispatched)
  have front: "hd (messages (mqttReducer state (MqttAction.ADD_MESSAGE p))) = p"
    by (simp add: take_Cons')
  have room: "length (messages state) < 100 \<longrightarrow>
        messages (mqttReducer state (MqttAction.ADD_MESSAGE p)) = p # messages state"
    by (simp add: take_Cons')
  show ?thesis
    using messages_dispatched messageCount_dispatched bounded front room add_message_full
    by simp
qed

text \<open>
  The property at concrete inputs: two insertions after a clear; an insertion into the
  empty feed; and message 100 inserted into the feed that holds 99 down to 0, which then
  holds 100 down to 1.
\<close>

theorem message_feed_bounded_most_recent_first_witness:
  "messages (dispatched_mqtt
      [MqttAction.ADD_MESSAGE (msg 0), MqttAction.CLEAR_MESSAGES,
       MqttAction.ADD_MESSAGE (msg 1), MqttAction.ADD_MESSAGE (msg 2)]) = [msg 2, msg 1]
   \<and> messageCount (dispatched_mqtt
      [MqttAction.ADD_MESSAGE (msg 0), MqttAction.CLEAR_MESSAGES,
       MqttAction.ADD_MESSAGE (msg 1), MqttAction.ADD_MESSAGE (msg 2)]) = 2
   \<and> length (messages initialState_mqtt) < 100
   \<and> messages (mqttReducer initialState_mqtt (MqttAction.ADD_MESSAGE (msg 0))) = [msg 0]
   \<and> length (messages full_feed) = 100
   \<and> messages (mqttReducer full_feed (MqttAction.ADD_MESSAGE (msg 100)))
       = msg 100 # map msg (rev [1..<100])
   \<and> messageCount (mqttReducer full_feed (MqttAction.ADD_MESSAGE (msg 100))) = 101"
proof -
  let ?acts = "[MqttAction.ADD_MESSAGE (msg 0), MqttAction.CLEAR_MESSAGES,
       MqttAction.ADD_MESSAGE (msg 1), MqttAction.ADD_MESSAGE (msg 2)]"
  have ins: "inserted ?acts = [msg 1, msg 2]"
    by (simp add: inserted_def)
  have empty: "length (messages initialState_mqtt) < 100" "messages initialState_mqtt = []"
    by (simp_all add: initialState_mqtt_def)
  have full: "length (messages full_feed) = 100" "messageCount full_feed = 100"
    by (simp_all add: full_feed_def)
  have oldest: "butlast (messages full_feed) = map msg (rev [1..<100])"
    by (simp add: full_feed_def map_butlast [symmetric] butlast_rev)
  from message_feed_bounded_most_recent_first [of ?acts initialState_mqtt "msg 0"]
    message_feed_bounded_most_recent_first [of ?acts full_feed "msg 100"]
    ins empty full oldest
  show ?thesis by simp
qed

text \<open>
  C10. For every MQTT state, the error-clearing action of the MQTT context dispatches
  \<^verbatim>\<open>SET_ERROR\<close> with the empty string, so the resulting state has status \<open>ERROR\<close>, is not
  connected, and has the empty string as its error (not null); in particular this holds
  when the error is cleared in a connected state.
\<close>

theorem clearError_marks_error:
  "clearError_mqtt state = mqttReducer state (MqttAction.SET_ERROR [])
   \<and> MqttState.connectionStatus (clearError_mqtt state) = ERROR
   \<and> connected (clearError_mqtt state) = False
   \<and> MqttState.error (clearError_mqtt state) = Some []
   \<and> MqttState.error (clearError_mqtt state) \<noteq> None
   \<and> MqttState.connectionStatus
        (clearError_mqtt (mqttReducer state MqttAction.SET_CONNECTED)) = ERROR
   \<and> connected (clearError_mqtt (mqttReducer state MqttAction.SET_CONNECTED)) = False"
  by (simp add: clearError_mqtt_def)

section \<open>Authentication context\<close>

lemma signIn_settled_failure:
  "authState (AuthProvider_signIn_settled (Inl e) state) = UNAUTHENTICATED
   \<and> AuthStateType.error (AuthProvider_signIn_settled (Inl e) state) = None"
  by (simp add: AuthProvider_signIn_settled_def Let_def)

text \<open>The sign-out path keeps the error it reports.\<close>

lemma signOut_failure_keeps_error:
  "AuthStateType.error (AuthProvider_signOut (Rejected e) state) \<noteq> None
   \<and> authState (AuthProvider_signOut (Rejected e) state) = UNAUTHENTICATED"
  by (simp add: AuthProvider_signOut_def Let_def)

text \<open>
  C2 (the code at a failing sign-in). When the identity provider rejects the sign-in of
  \<open>alice\<close> with \<^verbatim>\<open>NotAuthorizedException\<close>, the service throws an error with the message
  \<open>Invalid username or password\<close>; the provider component dispatches \<^verbatim>\<open>SET_ERROR\<close> and
  then \<^verbatim>\<open>SET_UNAUTHENTICATED\<close>, whose reducer case resets the error: the state ends
  unauthenticated, not loading, and with no error for the UI to show.
\<close>

theorem signIn_failure_clears_error:
  "fst (AuthService_signIn now ''alice''
          (Inl (JsError ''NotAuthorizedException'' m c)) got svc)
     = Inl (JsError ''Error'' ''Invalid username or password'' [])
   \<and> authState (signIn_attempt now ''alice''
          (Inl (JsError ''NotAuthorizedException'' m c)) got svc state) = UNAUTHENTICATED
   \<and> AuthStateType.error (signIn_attempt now ''alice''
          (Inl (JsError ''NotAuthorizedException'' m c)) got svc state) = None"
  by (simp add: signIn_attempt_def AuthService_signIn_def signIn_try_def signIn_catch_def
      AuthProvider_signIn_def signIn_settled_failure)

section \<open>S3 context\<close>

lemma lastRefreshTime_reduced:
  "lastRefreshTime state = None \<Longrightarrow> lastRefreshTime (s3Reducer now state a) = None"
  by (cases a) (simp_all add: initialState_s3_def)

text \<open>No sequence of actions, at any instants, gives \<^verbatim>\<open>lastRefreshTime\<close> a value.\<close>

lemma lastRefreshTime_never_set:
  "lastRefreshTime (foldl (\<lambda>s (t, a). s3Reducer t s a) initialState_s3 acts) = None"
proof (induction acts rule: rev_induct)
  case Nil
  show ?case by (simp add: initialState_s3_def)
next
  case (snoc x acts)
  then show ?case by (cases x) (simp add: lastRefreshTime_reduced)
qed

text \<open>
  C7 (the code at a refresh 2 seconds after a completed one). With a bucket selected, a
  manual refresh called at instant 0 sends one request and completes at instant 1000,
  which sets \<^verbatim>\<open>lastUpdated\<close> and leaves \<^verbatim>\<open>lastRefreshTime\<close> null; a second manual refresh
  at instant 3000 is not throttled and sends a request as well.
\<close>

theorem refresh_two_seconds_later_fetches:
  "snd (refreshImages True True 0 1000 (Inr listing) bucket_selected) = 1
   \<and> lastUpdated (fst (refreshImages True True 0 1000 (Inr listing) bucket_selected))
       = Some 1000
   \<and> lastRefreshTime (fst (refreshImages True True 0 1000 (Inr listing) bucket_selected))
       = None
   \<and> snd (refreshImages True True 3000 3400 (Inr listing)
            (fst (refreshImages True True 0 1000 (Inr listing) bucket_selected))) = 1"
  by (simp add: refreshImages_def loadImages_def bucket_selected_def initialState_s3_def
      falsy_bucket_def Let_def)

section \<open>Authentication service\<close>

text \<open>
  C6. For every session held by the service whose expiry instant is less than or equal to
  the current time, \<^verbatim>\<open>getCurrentUser\<close> returns null, and the call leaves the service with
  no session in memory, no entry under the session key in durable storage, and no
  refresh timer.
\<close>

theorem expired_session_cleared:
  assumes "currentSession svc = Some sess" and "AuthSession.expiresAt sess \<le> now"
  shows "fst (getCurrentUser now svc) = None
     \<and> currentSession (snd (getCurrentUser now svc)) = None
     \<and> getItem SESSION_KEY (localStorage (snd (getCurrentUser now svc))) = None
     \<and> refreshTimer (snd (getCurrentUser now svc)) = None"
  using assms
  by (simp add: getCurrentUser_def clearStoredSession_def removeItem_def getItem_def)

text \<open>The property for the session that expires at instant 1000, read at instant 1000.\<close>

theorem expired_session_cleared_witness:
  "currentSession signed_in = Some alice_session
   \<and> AuthSession.expiresAt alice_session \<le> 1000
   \<and> getItem SESSION_KEY (localStorage signed_in) = Some (SessionText alice_session)
   \<and> fst (getCurrentUser 1000 signed_in) = None
   \<and> currentSession (snd (getCurrentUser 1000 signed_in)) = None
   \<and> getItem SESSION_KEY (localStorage (snd (getCurrentUser 1000 signed_in))) = None
   \<and> refreshTimer (snd (getCurrentUser 1000 signed_in)) = None"
proof -
  have held: "currentSession signed_in = Some alice_session"
    by (simp add: signed_in_def)
  have expired: "AuthSession.expiresAt alice_session \<le> 1000"
    by (simp add: alice_session_def)
  have stored: "getItem SESSION_KEY (localStorage signed_in) = Some (SessionText alice_session)"
    by (simp add: signed_in_def getItem_def)
  from expired_session_cleared [OF held expired] held expired stored
  show ?thesis by simp
qed

section \<open>Discovery cache\<close>

text \<open>
  C9. Writing discovery results to the cache and reading them back before the entry
  expires round-trips: when storage accepts the write, \<^verbatim>\<open>setCachedResults\<close> of an
  endpoint and a buckets list at instant \<open>now\<close>, followed by \<^verbatim>\<open>getCachedResults\<close> no
  later than one hour after, returns a record with that endpoint, that buckets list, the
  timestamp \<open>now\<close> and an expiry 3600000 ms after the timestamp.
\<close>

theorem cache_round_trip:
  assumes "\<not> quotaExceeded st" and "later \<le> now + CACHE_DURATION"
  shows "fst (getCachedResults later
           (setCachedResults now
              \<lparr>p_iotEndpoint = Given (Some endpoint), p_s3Buckets = Given (Some buckets),
               p_timestamp = Absent, p_expiresAt = Absent\<rparr> st))
         = Some \<lparr>iotEndpoint = Some endpoint, s3Buckets = Some buckets,
                 DiscoveryCache.timestamp = Some now,
                 DiscoveryCache.expiresAt = Some (now + 3600000)\<rparr>"
  using assms
  by (simp add: getCachedResults_def setCachedResults_def setItem_def getItem_def
      CACHE_DURATION_def Let_def)

text \<open>The round trip of endpoint \<open>a\<close> and buckets \<open>[b]\<close>, written and read at instant 1000.\<close>

theorem cache_round_trip_witness:
  "\<not> quotaExceeded empty_storage
   \<and> (1000 :: int) \<le> 1000 + CACHE_DURATION
   \<and> fst (getCachedResults 1000
           (setCachedResults 1000
              \<lparr>p_iotEndpoint = Given (Some ''a''), p_s3Buckets = Given (Some [''b'']),
               p_timestamp = Absent, p_expiresAt = Absent\<rparr> empty_storage))
         = Some \<lparr>iotEndpoint = Some ''a'', s3Buckets = Some [''b''],
                 DiscoveryCache.timestamp = Some 1000,
                 DiscoveryCache.expiresAt = Some 3601000\<rparr>"
proof -
  have writable: "\<not> quotaExceeded empty_storage"
    by (simp add: empty_storage_def)
  have fresh: "(1000 :: int) \<le> 1000 + CACHE_DURATION"
    by (simp add: CACHE_DURATION_def)
  from cache_round_trip [OF writable fresh, of "''a''" "[''b'']"] writable fresh
  show ?thesis by simp
qed

section \<open>MQTT service\<close>

subsection \<open>Runs\<close>

text \<open>
  A run is evaluated one event at a time, from the state the events before it lead to.
\<close>

lemma run_snoc: "run (evs @ [e]) = step (run evs) e"
  by (simp add: run_def)

lemma run_established: "run established = snapshot CONNECTED 0 None [] 3 []"
  by code_simp

subsection \<open>Reconnect scheduling\<close>

lemma clearReconnectTimeout_fields:
  "reconnectTimeout (clearReconnectTimeout s) = None"
  "manualDisconnect (clearReconnectTimeout s) = manualDisconnect s"
  "reconnectAttempts (clearReconnectTimeout s) = reconnectAttempts s"
  "nextTimer (clearReconnectTimeout s) = nextTimer s"
  "timers (clearReconnectTimeout s)
     = filter (\<lambda>x. Some (fst x) \<noteq> reconnectTimeout s) (timers s)"
  by (simp_all add: clearReconnectTimeout_def clearTimeout_def split: option.splits)

text \<open>
  Below the cap, \<^verbatim>\<open>scheduleReconnect\<close> replaces the pending reconnect timer by one whose
  delay is 5000 ms doubled once per attempt already made.
\<close>

lemma scheduleReconnect_below_cap:
  assumes "reconnectAttempts s < maxReconnectAttempts"
  shows "reconnectAttempts (scheduleReconnect tp s) = reconnectAttempts s + 1"
    and "MqttService.connectionStatus (scheduleReconnect tp s) = RECONNECTING"
    and "reconnectTimeout (scheduleReconnect tp s) = Some (nextTimer s)"
    and "timers (scheduleReconnect tp s)
           = filter (\<lambda>x. Some (fst x) \<noteq> reconnectTimeout s) (timers s)
             @ [(nextTimer s, reconnectDelay * 2 ^ reconnectAttempts s, Reconnect tp)]"
  using assms
  by (simp_all add: scheduleReconnect_def Let_def setTimeout_def setConnectionStatus_def
      emit_def clearReconnectTimeout_fields)

text \<open>At the cap it only sets the status: the timer table and the handle stay as they are.\<close>

lemma scheduleReconnect_at_cap:
  assumes "maxReconnectAttempts \<le> reconnectAttempts s"
  shows "scheduleReconnect tp s = setConnectionStatus ERROR s"
  using assms by (simp add: scheduleReconnect_def)

text \<open>The states after one, two, three and four retryable errors, and after the timer.\<close>

lemma run_one_error:
  "run one_error
     = snapshot RECONNECTING 1 (Some 3) [(3, 5000, Reconnect ''dashboard/messages'')] 4
         [StatusNotified ERROR, StatusNotified RECONNECTING]"
  unfolding one_error_def run_snoc run_established by code_simp

lemma run_two_errors:
  "run two_errors
     = snapshot RECONNECTING 2 (Some 4) [(4, 10000, Reconnect ''dashboard/messages'')] 5
         [StatusNotified ERROR, StatusNotified RECONNECTING,
          StatusNotified ERROR, StatusNotified RECONNECTING]"
  unfolding two_errors_def run_snoc run_one_error by code_simp

lemma run_three_errors:
  "run three_errors
     = snapshot RECONNECTING 3 (Some 5) [(5, 20000, Reconnect ''dashboard/messages'')] 6
         [StatusNotified ERROR, StatusNotified RECONNECTING,
          StatusNotified ERROR, StatusNotified RECONNECTING,
          StatusNotified ERROR, StatusNotified RECONNECTING]"
  unfolding three_errors_def run_snoc run_two_errors by code_simp

lemma run_repeated_errors:
  "run repeated_errors
     = snapshot ERROR 3 (Some 5) [(5, 20000, Reconnect ''dashboard/messages'')] 6
         [StatusNotified ERROR, StatusNotified RECONNECTING,
          StatusNotified ERROR, StatusNotified RECONNECTING,
          StatusNotified ERROR, StatusNotified RECONNECTING,
          StatusNotified ERROR, StatusNotified ERROR]"
  unfolding repeated_errors_def run_snoc run_three_errors by code_simp

lemma run_timer_after_cap:
  "run timer_after_cap
     = (snapshot CONNECTING 3 None [] 6
         [StatusNotified ERROR, StatusNotified RECONNECTING,
          StatusNotified ERROR, StatusNotified RECONNECTING,
          StatusNotified ERROR, StatusNotified RECONNECTING,
          StatusNotified ERROR, StatusNotified ERROR, StatusNotified CONNECTING])
       \<lparr>isConnecting := True, awaitingCredentials := [''dashboard/messages'']\<rparr>"
  unfolding timer_after_cap_def run_snoc run_repeated_errors by code_simp

lemma transports_reconnect_after_cap: "transports (run reconnect_after_cap) = 2"
  unfolding reconnect_after_cap_def run_snoc run_timer_after_cap by code_simp

lemma transports_repeated_errors: "transports (run repeated_errors) = 1"
  by (simp add: run_repeated_errors snapshot_def transports_def)

text \<open>
  C3 (the code at four retryable errors in a row). On an established connection the
  first three \<^verbatim>\<open>error\<close> events schedule reconnects with delays 5000, 10000 and 20000 ms,
  each replacing the timer before it. The fourth finds the counter at the cap: the status
  becomes \<open>ERROR\<close>, and the function returns before the code that clears the pending
  timer, so the 20000 ms reconnect timer is still pending and its handle is still held.
  When that timer fires the service connects again by itself and opens a second
  transport.
\<close>

theorem cap_reached_with_timer_pending:
  "timers (run one_error) = [(3, 5000, Reconnect ''dashboard/messages'')]
   \<and> timers (run two_errors) = [(4, 10000, Reconnect ''dashboard/messages'')]
   \<and> timers (run three_errors) = [(5, 20000, Reconnect ''dashboard/messages'')]
   \<and> MqttService.connectionStatus (run repeated_errors) = ERROR
   \<and> reconnectAttempts (run repeated_errors) = 3
   \<and> reconnectTimeout (run repeated_errors) = Some 5
   \<and> timers (run repeated_errors) = [(5, 20000, Reconnect ''dashboard/messages'')]
   \<and> transports (run repeated_errors) = 1
   \<and> transports (run reconnect_after_cap) = 2"
proof -
  have backoff: "timers (run one_error) = [(3, 5000, Reconnect ''dashboard/messages'')]"
    "timers (run two_errors) = [(4, 10000, Reconnect ''dashboard/messages'')]"
    "timers (run three_errors) = [(5, 20000, Reconnect ''dashboard/messages'')]"
    by (simp_all add: run_one_error run_two_errors run_three_errors snapshot_def)
  have capped: "MqttService.connectionStatus (run repeated_errors) = ERROR"
    "reconnectAttempts (run repeated_errors) = 3"
    "reconnectTimeout (run repeated_errors) = Some 5"
    "timers (run repeated_errors) = [(5, 20000, Reconnect ''dashboard/messages'')]"
    by (simp_all add: run_repeated_errors snapshot_def)
  from backoff capped transports_repeated_errors transports_reconnect_after_cap
  show ?thesis by blast
qed

subsection \<open>Connect\<close>

text \<open>A call of \<^verbatim>\<open>connect\<close> that finds \<^verbatim>\<open>isConnecting\<close> set changes nothing.\<close>

lemma connect_begin_while_connecting:
  "isConnecting s \<Longrightarrow> connect_begin tp s = s"
  by (simp add: connect_begin_def)

text \<open>The acknowledgement handler subscribes whatever the status was.\<close>

lemma on_connect_subscribes:
  "connection s = Some c \<Longrightarrow> subscribes (on_connect tp s) = subscribes s + 1"
  by (simp add: on_connect_def subscribeToTopic_def subscribes_def emit_def
      setConnectionStatus_def)

lemma run_slow_connect:
  "run slow_connect
     = \<lparr>client = Some 0, connection = Some 0, MqttService.connectionStatus = CONNECTED,
        reconnectAttempts = 0, currentTopic = ''dashboard/messages'',
        reconnectTimeout = None, isConnecting = False, manualDisconnect = False,
        timers = [], nextTimer = 3, handlers = [(0, ''dashboard/messages'')],
        nextConnection = 1, awaitingCredentials = [],
        awaitingSubscribe = [''dashboard/messages'', ''dashboard/messages''],
        effects =
          [StatusNotified CONNECTING, ConnectIssued 0, StatusNotified CONNECTED,
           SubscribeIssued 0 ''dashboard/messages'', StatusNotified CONNECTED,
           SubscribeIssued 0 ''dashboard/messages'']\<rparr>"
  by code_simp

text \<open>
  C1 (the code at a connection that takes longer than 3 seconds). \<^verbatim>\<open>connect\<close> is called
  twice in a row; the second call finds \<^verbatim>\<open>isConnecting\<close> set and returns, and one
  transport is opened. The watchdog fires first, marks the service connected and
  subscribes 500 ms later; the transport's \<^verbatim>\<open>connect\<close> event then arrives, and its handler
  subscribes again without looking at the status: two subscribe calls for one connect.
\<close>

theorem slow_connect_subscribes_twice:
  "transports (run slow_connect) = 1
   \<and> subscribes (run slow_connect) = 2
   \<and> effects (run slow_connect)
       = [StatusNotified CONNECTING, ConnectIssued 0, StatusNotified CONNECTED,
          SubscribeIssued 0 ''dashboard/messages'', StatusNotified CONNECTED,
          SubscribeIssued 0 ''dashboard/messages'']"
  by (simp add: run_slow_connect transports_def subscribes_def)

subsection \<open>Disconnect\<close>

lemma disconnect_begin_fields:
  "manualDisconnect (disconnect_begin s)"
  "reconnectTimeout (disconnect_begin s) = None"
  "reconnectAttempts (disconnect_begin s) = 0"
  "filter (\<lambda>x. Some (fst x) = reconnectTimeout s) (timers (disconnect_begin s)) = []"
  by (simp_all add: disconnect_begin_def Let_def clearReconnectTimeout_fields
      filter_empty_conv)

text \<open>Left alone while suspended, the cleanup touches neither the flag nor the timers.\<close>

lemma disconnect_cleanup_alone:
  "manualDisconnect (disconnect_cleanup u c (\<lambda>x. x) (\<lambda>x. x) s) = manualDisconnect s"
  "reconnectTimeout (disconnect_cleanup u c (\<lambda>x. x) (\<lambda>x. x) s) = reconnectTimeout s"
  "timers (disconnect_cleanup u c (\<lambda>x. x) (\<lambda>x. x) s) = timers s"
  "reconnectAttempts (disconnect_cleanup u c (\<lambda>x. x) (\<lambda>x. x) s) = reconnectAttempts s"
  by (simp_all add: disconnect_cleanup_def emit_def Let_def
      split: option.splits outcome.splits)

lemma status_disconnect_interleaved:
  "MqttService.connectionStatus (disconnect_interleaved u c during1 during2 s) = DISCONNECTED"
  by (simp add: disconnect_interleaved_def setConnectionStatus_def emit_def)

lemma disconnect_fields:
  "manualDisconnect (disconnect u c s)"
  "reconnectTimeout (disconnect u c s) = None"
  "reconnectAttempts (disconnect u c s) = 0"
  "filter (\<lambda>x. Some (fst x) = reconnectTimeout s) (timers (disconnect u c s)) = []"
  "MqttService.connectionStatus (disconnect u c s) = DISCONNECTED"
  by (simp_all add: disconnect_def disconnect_interleaved_def setConnectionStatus_def
      emit_def disconnect_cleanup_alone disconnect_begin_fields)

text \<open>With the manual flag set, neither a drop nor an error schedules anything.\<close>

lemma manual_suppresses_reconnect:
  assumes "manualDisconnect s"
  shows "timers (on_disconnect tp s) = timers s"
    and "timers (on_error tp e s) = timers s"
    and "grace_elapsed tp s = s"
  using assms
  by (simp_all add: on_disconnect_def on_error_def grace_elapsed_def Let_def
      setConnectionStatus_def emit_def)

text \<open>The bookkeeping of timers is kept by every event.\<close>

lemma tracked_same:
  assumes "timers s' = timers s" "nextTimer s' = nextTimer s"
    "reconnectTimeout s' = reconnectTimeout s"
  shows "timers_tracked s' = timers_tracked s"
  using assms by (simp add: timers_tracked_def reconnect_timers_def)

lemma tracked_setConnectionStatus [simp]:
  "timers_tracked (setConnectionStatus st s) = timers_tracked s"
  by (rule tracked_same) (simp_all add: setConnectionStatus_def emit_def)

lemma tracked_emit [simp]: "timers_tracked (emit x s) = timers_tracked s"
  by (rule tracked_same) (simp_all add: emit_def)

lemma tracked_setTimeout:
  assumes "timers_tracked s" "\<not> is_reconnect cb"
  shows "timers_tracked (snd (setTimeout cb d s))"
  using assms
  by (auto simp: timers_tracked_def reconnect_timers_def setTimeout_def list_all_iff)

lemma tracked_clearTimeout:
  assumes "timers_tracked s"
  shows "timers_tracked (clearTimeout t s)"
  using assms
  by (auto simp: timers_tracked_def reconnect_timers_def clearTimeout_def list_all_iff
      distinct_map_filter)

lemma tracked_clearReconnectTimeout:
  assumes "timers_tracked s"
  shows "timers_tracked (clearReconnectTimeout s)"
    and "reconnect_timers (clearReconnectTimeout s) = []"
  using assms
  by (auto simp: timers_tracked_def reconnect_timers_def clearReconnectTimeout_def
      clearTimeout_def list_all_iff distinct_map_filter filter_empty_conv
      split: option.splits) blast+

lemma tracked_scheduleReconnect:
  assumes "timers_tracked s"
  shows "timers_tracked (scheduleReconnect tp s)"
proof (cases "maxReconnectAttempts \<le> reconnectAttempts s")
  case True
  then show ?thesis using assms by (simp add: scheduleReconnect_def)
next
  case False
  let ?c = "clearReconnectTimeout s"
  have c: "timers_tracked ?c" "reconnect_timers ?c = []"
    using assms by (rule tracked_clearReconnectTimeout)+
  have "timers_tracked (scheduleReconnect tp s)
      = timers_tracked (?c\<lparr>timers := timers ?c @ [(nextTimer ?c, reconnectDelay * 2 ^ reconnectAttempts ?c, Reconnect tp)],
            nextTimer := nextTimer ?c + 1, reconnectTimeout := Some (nextTimer ?c)\<rparr>)"
    using False
    by (intro tracked_same)
      (simp_all add: scheduleReconnect_def Let_def setTimeout_def setConnectionStatus_def emit_def)
  also have "\<dots>"
    using c by (auto simp: timers_tracked_def reconnect_timers_def list_all_iff)
  finally show ?thesis .
qed


lemma tracked_other_fields [simp]:
  "timers_tracked (s\<lparr>client := a1\<rparr>) = timers_tracked s"
  "timers_tracked (s\<lparr>connection := a2\<rparr>) = timers_tracked s"
  "timers_tracked (s\<lparr>MqttService.connectionStatus := a3\<rparr>) = timers_tracked s"
  "timers_tracked (s\<lparr>reconnectAttempts := a4\<rparr>) = timers_tracked s"
  "timers_tracked (s\<lparr>currentTopic := a5\<rparr>) = timers_tracked s"
  "timers_tracked (s\<lparr>isConnecting := a6\<rparr>) = timers_tracked s"
  "timers_tracked (s\<lparr>manualDisconnect := a7\<rparr>) = timers_tracked s"
  "timers_tracked (s\<lparr>handlers := a8\<rparr>) = timers_tracked s"
  "timers_tracked (s\<lparr>nextConnection := a9\<rparr>) = timers_tracked s"
  "timers_tracked (s\<lparr>awaitingCredentials := b1\<rparr>) = timers_tracked s"
  "timers_tracked (s\<lparr>awaitingSubscribe := b2\<rparr>) = timers_tracked s"
  "timers_tracked (s\<lparr>effects := b3\<rparr>) = timers_tracked s"
  by (simp_all add: timers_tracked_def reconnect_timers_def)

lemma tracked_subscribeToTopic [simp]:
  "timers_tracked (subscribeToTopic tp s) = timers_tracked s"
  by (simp add: subscribeToTopic_def split: option.splits)

lemma tracked_subscribeToTopic_settled:
  "timers_tracked s \<Longrightarrow> timers_tracked (subscribeToTopic_settled r s)"
  by (cases r) (simp_all add: subscribeToTopic_settled_def tracked_setTimeout)

lemma tracked_connect_begin:
  "timers_tracked s \<Longrightarrow> timers_tracked (connect_begin tp s)"
  by (simp add: connect_begin_def Let_def tracked_clearReconnectTimeout)

lemma tracked_connect_resume:
  "timers_tracked s \<Longrightarrow> timers_tracked (connect_resume tp r s)"
  by (simp add: connect_resume_def Let_def tracked_setTimeout split: sum.splits)

lemma tracked_on_disconnect:
  "timers_tracked s \<Longrightarrow> timers_tracked (on_disconnect tp s)"
  by (simp add: on_disconnect_def Let_def tracked_setTimeout tracked_scheduleReconnect)

lemma tracked_on_error:
  "timers_tracked s \<Longrightarrow> timers_tracked (on_error tp e s)"
  by (simp add: on_error_def Let_def tracked_scheduleReconnect)

lemma tracked_connect_promise:
  "timers_tracked s \<Longrightarrow> timers_tracked (connect_promise tp r s)"
  by (cases r) (simp_all add: connect_promise_def)

lemma tracked_watchdog:
  "timers_tracked s \<Longrightarrow> timers_tracked (watchdog tp s)"
  by (simp add: watchdog_def tracked_setTimeout)

lemma tracked_grace_elapsed:
  "timers_tracked s \<Longrightarrow> timers_tracked (grace_elapsed tp s)"
  by (simp add: grace_elapsed_def tracked_scheduleReconnect)

text \<open>When the reconnect timer fires, it was the only one, and it is gone.\<close>

lemma tracked_reconnect_fired:
  assumes "timers_tracked s" and "map_of (timers s) t = Some (d, Reconnect tp)"
  shows "timers_tracked ((clearTimeout t s)\<lparr>reconnectTimeout := None\<rparr>)"
proof -
  have mem: "(t, d, Reconnect tp) \<in> set (timers s)"
    using assms(2) by (rule map_of_SomeD)
  then have "(t, d, Reconnect tp) \<in> set (reconnect_timers s)"
    by (simp add: reconnect_timers_def)
  then have "reconnectTimeout s = Some t"
    using assms(1) by (auto simp: timers_tracked_def list_all_iff)
  then have only: "\<forall>x \<in> set (reconnect_timers s). fst x = t"
    using assms(1) by (auto simp: timers_tracked_def list_all_iff)
  have "reconnect_timers ((clearTimeout t s)\<lparr>reconnectTimeout := None\<rparr>)
      = filter (\<lambda>x. fst x \<noteq> t) (reconnect_timers s)"
    by (auto simp: reconnect_timers_def clearTimeout_def intro: filter_cong)
  also have "\<dots> = []"
    using only by (simp add: filter_empty_conv)
  finally have none: "reconnect_timers ((clearTimeout t s)\<lparr>reconnectTimeout := None\<rparr>) = []" .
  have "list_all (\<lambda>x. fst x < nextTimer s) (filter (\<lambda>x. fst x \<noteq> t) (timers s))"
    "distinct (map fst (filter (\<lambda>x. fst x \<noteq> t) (timers s)))"
    using assms(1) by (auto simp: timers_tracked_def list_all_iff distinct_map_filter)
  then show ?thesis
    using none by (simp add: timers_tracked_def clearTimeout_def)
qed

lemma tracked_timer_fired:
  assumes "timers_tracked s" and "map_of (timers s) t = Some (d, cb)"
  shows "timers_tracked (run_callback cb (clearTimeout t s))"
proof (cases cb)
  case (Reconnect tp)
  with assms have "timers_tracked ((clearTimeout t s)\<lparr>reconnectTimeout := None\<rparr>)"
    by (simp add: tracked_reconnect_fired)
  with Reconnect show ?thesis
    by (simp add: reconnect_elapsed_def tracked_connect_begin)
qed (use assms(1) in \<open>simp_all add: tracked_clearTimeout tracked_watchdog
      tracked_grace_elapsed simulateWelcomeMessage_def\<close>)

lemma tracked_disconnect:
  assumes "timers_tracked s"
  shows "timers_tracked (disconnect u c s)"
proof -
  have "timers_tracked (disconnect_begin s)"
    using assms by (simp add: disconnect_begin_def Let_def tracked_clearReconnectTimeout)
  moreover have "timers_tracked (disconnect u c s) = timers_tracked (disconnect_begin s)"
    by (rule tracked_same)
      (simp_all add: disconnect_def disconnect_interleaved_def setConnectionStatus_def
        emit_def disconnect_cleanup_def Let_def split: option.splits outcome.splits)
  ultimately show ?thesis by simp
qed

lemma tracked_step:
  assumes "timers_tracked s"
  shows "timers_tracked (step s e)"
  using assms
  by (cases e)
    (auto simp: with_handlers_def on_connect_def on_interrupt_def on_resume_def
      tracked_connect_begin tracked_connect_resume tracked_on_disconnect tracked_on_error
      tracked_connect_promise tracked_subscribeToTopic_settled tracked_timer_fired
      tracked_disconnect split: option.splits)

lemma tracked_run: "timers_tracked (run evs)"
proof (induction evs rule: rev_induct)
  case Nil
  show ?case by (simp add: run_def mqttService_def timers_tracked_def reconnect_timers_def)
next
  case (snoc e evs)
  then show ?case by (simp add: run_def tracked_step)
qed

lemma no_reconnect_timer_after_disconnect:
  "reconnect_timers (disconnect u c (run evs)) = []"
proof -
  have "timers_tracked (disconnect u c (run evs))"
    by (rule tracked_disconnect) (rule tracked_run)
  moreover have "reconnectTimeout (disconnect u c (run evs)) = None"
    by (simp add: disconnect_def disconnect_interleaved_def setConnectionStatus_def
        emit_def disconnect_cleanup_def disconnect_begin_def clearReconnectTimeout_def Let_def split: option.splits outcome.splits)
  ultimately show ?thesis
    by (cases "reconnect_timers (disconnect u c (run evs))")
      (simp_all add: timers_tracked_def)
qed

text \<open>
  C4. For every state, a manual \<^verbatim>\<open>disconnect()\<close> sets the manual-disconnect flag and
  cancels the pending reconnect timer in its first synchronous step, and it ends with
  status \<open>DISCONNECTED\<close> however \<^verbatim>\<open>unsubscribe\<close> and the transport's \<^verbatim>\<open>disconnect\<close>
  settle (resolved or thrown) and whatever runs while the call is suspended. When nothing
  else runs in between, the flag is still set and the timer is still cancelled at the end,
  and a later drop or error of the transport schedules nothing. In a state reached by any
  run of events, no reconnect timer at all is pending after the call.
\<close>

theorem disconnect_always_disconnected:
  "manualDisconnect (disconnect_begin s)
   \<and> reconnectTimeout (disconnect_begin s) = None
   \<and> filter (\<lambda>x. Some (fst x) = reconnectTimeout s) (timers (disconnect_begin s)) = []
   \<and> MqttService.connectionStatus
        (disconnect_interleaved unsubscribed closed during1 during2 s) = DISCONNECTED
   \<and> MqttService.connectionStatus (disconnect unsubscribed closed s) = DISCONNECTED
   \<and> manualDisconnect (disconnect unsubscribed closed s)
   \<and> reconnectTimeout (disconnect unsubscribed closed s) = None
   \<and> filter (\<lambda>x. Some (fst x) = reconnectTimeout s)
        (timers (disconnect unsubscribed closed s)) = []
   \<and> timers (on_disconnect tp (disconnect unsubscribed closed s))
       = timers (disconnect unsubscribed closed s)
   \<and> timers (on_error tp e (disconnect unsubscribed closed s))
       = timers (disconnect unsubscribed closed s)
   \<and> reconnect_timers (disconnect unsubscribed closed (run evs)) = []"
  by (simp add: disconnect_begin_fields status_disconnect_interleaved disconnect_fields
      manual_suppresses_reconnect no_reconnect_timer_after_disconnect)

subsection \<open>Unexpected drops\<close>

lemma on_disconnect_first_drop:
  assumes "\<not> manualDisconnect s" and "reconnectAttempts s = 0"
  shows "timers (on_disconnect tp s) = timers s @ [(nextTimer s, 2000, GraceReconnect tp)]"
    and "reconnectTimeout (on_disconnect tp s) = reconnectTimeout s"
    and "reconnectAttempts (on_disconnect tp s) = 0"
    and "MqttService.connectionStatus (on_disconnect tp s) = DISCONNECTED"
  using assms
  by (simp_all add: on_disconnect_def Let_def setTimeout_def setConnectionStatus_def emit_def)

lemma on_disconnect_later_drop:
  assumes "\<not> manualDisconnect s" and "reconnectAttempts s \<noteq> 0"
  shows "on_disconnect tp s
           = scheduleReconnect tp (setConnectionStatus DISCONNECTED (s\<lparr>isConnecting := False\<rparr>))"
  using assms
  by (simp add: on_disconnect_def Let_def setConnectionStatus_def emit_def)

lemma on_disconnect_later_drop_timer:
  assumes "\<not> manualDisconnect s" and "0 < reconnectAttempts s"
    and "reconnectAttempts s < maxReconnectAttempts"
  shows "timers (on_disconnect tp s)
           = filter (\<lambda>x. Some (fst x) \<noteq> reconnectTimeout s) (timers s)
             @ [(nextTimer s, reconnectDelay * 2 ^ reconnectAttempts s, Reconnect tp)]"
proof -
  let ?s = "setConnectionStatus DISCONNECTED (s\<lparr>isConnecting := False\<rparr>)"
  have "reconnectAttempts ?s < maxReconnectAttempts"
    using assms(3) by (simp add: setConnectionStatus_def emit_def)
  from scheduleReconnect_below_cap(4) [OF this, of tp] on_disconnect_later_drop [of s tp] assms
  show ?thesis by (simp add: setConnectionStatus_def emit_def)
qed

lemma run_dropped:
  "run dropped
     = snapshot DISCONNECTED 0 None [(3, 2000, GraceReconnect ''dashboard/messages'')] 4
         [StatusNotified DISCONNECTED]"
  unfolding dropped_def run_snoc run_established by code_simp

lemma run_grace_over:
  "run grace_over
     = snapshot RECONNECTING 1 (Some 4) [(4, 5000, Reconnect ''dashboard/messages'')] 5
         [StatusNotified DISCONNECTED, StatusNotified RECONNECTING]"
  unfolding grace_over_def run_snoc run_dropped by code_simp

text \<open>
  C8. On an unexpected drop with the reconnect counter at zero the handler sets the status
  to \<open>DISCONNECTED\<close> and only arms a 2000 ms grace timer: nothing is scheduled yet. When
  the grace timer fires, the scheduling is skipped if the manual flag is set or the status
  is no longer \<open>DISCONNECTED\<close> (so after a manual \<^verbatim>\<open>disconnect()\<close> it does nothing), and
  otherwise \<^verbatim>\<open>scheduleReconnect\<close> runs. On an unexpected drop with the counter above zero
  the handler calls \<^verbatim>\<open>scheduleReconnect\<close> at once, without a grace timer; below the cap
  this arms the reconnect timer in the same step.
\<close>

theorem first_drop_waits_grace_period:
  "(\<not> manualDisconnect s \<and> reconnectAttempts s = 0 \<longrightarrow>
      timers (on_disconnect tp s) = timers s @ [(nextTimer s, 2000, GraceReconnect tp)]
      \<and> reconnectTimeout (on_disconnect tp s) = reconnectTimeout s
      \<and> reconnectAttempts (on_disconnect tp s) = 0
      \<and> MqttService.connectionStatus (on_disconnect tp s) = DISCONNECTED)
   \<and> (manualDisconnect s' \<or> MqttService.connectionStatus s' \<noteq> DISCONNECTED \<longrightarrow>
        grace_elapsed tp s' = s')
   \<and> (\<not> manualDisconnect s' \<and> MqttService.connectionStatus s' = DISCONNECTED \<longrightarrow>
        grace_elapsed tp s' = scheduleReconnect tp s')
   \<and> grace_elapsed tp (disconnect unsubscribed closed s') = disconnect unsubscribed closed s'
   \<and> (\<not> manualDisconnect s \<and> reconnectAttempts s \<noteq> 0 \<longrightarrow>
        on_disconnect tp s
          = scheduleReconnect tp
              (setConnectionStatus DISCONNECTED (s\<lparr>isConnecting := False\<rparr>)))
   \<and> (\<not> manualDisconnect s \<and> 0 < reconnectAttempts s
        \<and> reconnectAttempts s < maxReconnectAttempts \<longrightarrow>
        timers (on_disconnect tp s)
          = filter (\<lambda>x. Some (fst x) \<noteq> reconnectTimeout s) (timers s)
            @ [(nextTimer s, reconnectDelay * 2 ^ reconnectAttempts s, Reconnect tp)])"
proof -
  have skipped: "manualDisconnect s' \<or> MqttService.connectionStatus s' \<noteq> DISCONNECTED \<longrightarrow>
        grace_elapsed tp s' = s'"
    by (auto simp: grace_elapsed_def)
  have scheduled: "\<not> manualDisconnect s' \<and> MqttService.connectionStatus s' = DISCONNECTED \<longrightarrow>
        grace_elapsed tp s' = scheduleReconnect tp s'"
    by (simp add: grace_elapsed_def)
  have after_manual:
    "grace_elapsed tp (disconnect unsubscribed closed s') = disconnect unsubscribed closed s'"
    by (simp add: manual_suppresses_reconnect(3) disconnect_fields(1))
  show ?thesis
    using on_disconnect_first_drop [of s tp] on_disconnect_later_drop [of s tp]
      on_disconnect_later_drop_timer [of s tp] skipped scheduled after_manual
    by blast
qed

text \<open>
  The property on the established connection: its first drop arms grace timer 3; a grace
  timer firing while the service is still connected does nothing; firing after the drop
  it schedules the first reconnect; and a second drop, with the counter at 1, schedules
  the next reconnect (10000 ms) at once.
\<close>

theorem first_drop_waits_grace_period_witness:
  "\<not> manualDisconnect (run established)
   \<and> reconnectAttempts (run established) = 0
   \<and> timers (on_disconnect ''dashboard/messages'' (run established))
       = [(3, 2000, GraceReconnect ''dashboard/messages'')]
   \<and> reconnectTimeout (on_disconnect ''dashboard/messages'' (run established)) = None
   \<and> MqttService.connectionStatus (run established) \<noteq> DISCONNECTED
   \<and> grace_elapsed ''dashboard/messages'' (run established) = run established
   \<and> MqttService.connectionStatus (run dropped) = DISCONNECTED
   \<and> grace_elapsed ''dashboard/messages'' (run dropped)
       = scheduleReconnect ''dashboard/messages'' (run dropped)
   \<and> reconnectAttempts (run grace_over) = 1
   \<and> timers (on_disconnect ''dashboard/messages'' (run grace_over))
       = [(5, 10000, Reconnect ''dashboard/messages'')]"
proof -
  let ?tp = "''dashboard/messages''"
  have up: "\<not> manualDisconnect (run established)" "reconnectAttempts (run established) = 0"
    "MqttService.connectionStatus (run established) \<noteq> DISCONNECTED"
    by (simp_all add: run_established snapshot_def)
  have up_timers: "timers (run established) = []" "nextTimer (run established) = 3"
    "reconnectTimeout (run established) = None"
    by (simp_all add: run_established snapshot_def)
  have down: "\<not> manualDisconnect (run dropped)"
    "MqttService.connectionStatus (run dropped) = DISCONNECTED"
    by (simp_all add: run_dropped snapshot_def)
  have again: "\<not> manualDisconnect (run grace_over)" "reconnectAttempts (run grace_over) = 1"
    "0 < reconnectAttempts (run grace_over)"
    "reconnectAttempts (run grace_over) < maxReconnectAttempts"
    by (simp_all add: run_grace_over snapshot_def maxReconnectAttempts_def)
  have again_timers: "timers (run grace_over) = [(4, 5000, Reconnect ?tp)]"
    "nextTimer (run grace_over) = 5" "reconnectTimeout (run grace_over) = Some 4"
    by (simp_all add: run_grace_over snapshot_def)
  from first_drop_waits_grace_period [of "run established" ?tp "run established"
      Resolved Resolved] up
  have first: "timers (on_disconnect ?tp (run established))
        = timers (run established)
          @ [(nextTimer (run established), 2000, GraceReconnect ?tp)]"
    "reconnectTimeout (on_disconnect ?tp (run established))
        = reconnectTimeout (run established)"
    "grace_elapsed ?tp (run established) = run established"
    by blast+
  from first_drop_waits_grace_period [of "run grace_over" ?tp "run dropped"
      Resolved Resolved] down again
  have later: "grace_elapsed ?tp (run dropped) = scheduleReconnect ?tp (run dropped)"
    "timers (on_disconnect ?tp (run grace_over))
        = filter (\<lambda>x. Some (fst x) \<noteq> reconnectTimeout (run grace_over))
            (timers (run grace_over))
          @ [(nextTimer (run grace_over),
              reconnectDelay * 2 ^ reconnectAttempts (run grace_over), Reconnect ?tp)]"
    by blast+
  have armed: "timers (on_disconnect ?tp (run established)) = [(3, 2000, GraceReconnect ?tp)]"
    by (simp add: first(1) up_timers)
  have untouched: "reconnectTimeout (on_disconnect ?tp (run established)) = None"
    by (simp add: first(2) up_timers)
  have at_once: "timers (on_disconnect ?tp (run grace_over)) = [(5, 10000, Reconnect ?tp)]"
    by (simp add: later(2) again(2) again_timers reconnectDelay_def)
  from up down(2) again(2) armed untouched first(3) later(1) at_once
  show ?thesis by blast
qed

end
